theory Spec2Isabelle
  imports Complex_Main "HOL-Library.Char_ord" "HOL-Library.List_Lexorder" "HOL-Library.Multiset"
begin

section \<open>Query by Humming: the melody-matching engine\<close>

text \<open>
  A shallow embedding of the matching-relevant functions of the backend:
  \<^item> \<open>services/melody.py\<close>: note numbers, onset intervals, relative pitches;
  \<^item> \<open>services/dtw.py\<close>: the correlation-based similarity;
  \<^item> \<open>services/matcher.py\<close>: the ranker;
  \<^item> \<open>dsp_utils.py\<close>: pitch clean-up and the interval representation;
  \<^item> \<open>dsp_engine.py\<close>: contour normalisation, sliding windows, identification.

  Python floats and numpy float64 arrays are modelled by \<^typ>\<open>real\<close> and
  \<^typ>\<open>real list\<close>: arithmetic is exact here, so the rounding error of the
  floating-point operations is not part of the model. Python integers are \<^typ>\<open>int\<close>.
  Exceptions are values of the type \<open>py_error\<close>.
\<close>

datatype py_error = ZeroDivisionError | IndexError | ValueError | OverflowError

subsection \<open>Python and numpy primitives\<close>

text \<open>\<open>int(x)\<close> on a float truncates towards zero.\<close>

definition py_int :: "real \<Rightarrow> int" where
  "py_int x = (if 0 \<le> x then \<lfloor>x\<rfloor> else \<lceil>x\<rceil>)"

text \<open>\<open>round(x)\<close> and \<open>np.round(x)\<close> round to the nearest integer, a tie to the even one.\<close>

definition py_round :: "real \<Rightarrow> int" where
  "py_round x =
     (let f = \<lfloor>x\<rfloor>; d = x - of_int f
      in if d < 1 / 2 then f
         else if 1 / 2 < d then f + 1
         else if even f then f else f + 1)"

text \<open>\<open>round(x, k)\<close>: to \<open>k\<close> decimal places.\<close>

definition py_round_digits :: "real \<Rightarrow> nat \<Rightarrow> real" where
  "py_round_digits x k = of_int (py_round (x * 10 ^ k)) / 10 ^ k"

text \<open>
  A slice \<open>xs[i:j]\<close>: a negative index counts from the end, and both indices are
  brought into \<open>0..len(xs)\<close>.
\<close>

definition py_index :: "nat \<Rightarrow> int \<Rightarrow> nat" where
  "py_index n i = (if i < 0 then nat (int n + i) else min (nat i) n)"

definition py_slice :: "'a list \<Rightarrow> int \<Rightarrow> int \<Rightarrow> 'a list" where
  "py_slice xs i j =
     (let lo = py_index (length xs) i; hi = py_index (length xs) j
      in take (hi - lo) (drop lo xs))"

text \<open>\<open>xs[i:]\<close> and \<open>xs[:j]\<close>.\<close>

definition py_slice_from :: "'a list \<Rightarrow> int \<Rightarrow> 'a list" where
  "py_slice_from xs i = drop (py_index (length xs) i) xs"

definition py_slice_to :: "'a list \<Rightarrow> int \<Rightarrow> 'a list" where
  "py_slice_to xs j = take (py_index (length xs) j) xs"

text \<open>\<open>np.mean\<close>, \<open>np.diff\<close>, \<open>np.clip\<close>.\<close>

definition np_mean :: "real list \<Rightarrow> real" where
  "np_mean xs = sum_list xs / real (length xs)"

fun np_diff :: "real list \<Rightarrow> real list" where
  "np_diff (a # b # rest) = (b - a) # np_diff (b # rest)"
| "np_diff _ = []"

definition np_clip :: "real list \<Rightarrow> real \<Rightarrow> real \<Rightarrow> real list" where
  "np_clip xs lo hi = map (\<lambda>x. min (max x lo) hi) xs"

subsection \<open>services/melody.py\<close>

definition SAMPLE_RATE :: int where
  "SAMPLE_RATE = 22050"

text \<open>The piano key number of a frequency, 0 when out of the 88 keys.\<close>

definition get_note_number :: "real \<Rightarrow> int" where
  "get_note_number pitch_val =
     (if pitch_val \<le> 0 then 0
      else let n = 12 * log 2 (pitch_val / 440) + 49
           in if 1 \<le> n \<and> n \<le> 88 then py_round n else 0)"

text \<open>
  The frame index of every onset, followed by the number of frames. The onsets are a
  numpy array of times: with a zero duration the quotient is \<open>nan\<close> or \<open>inf\<close>
  and \<open>int\<close> raises.
\<close>

definition onset_frame :: "real \<Rightarrow> int \<Rightarrow> real \<Rightarrow> py_error + int" where
  "onset_frame duration total_frames onset_time =
     (if duration = 0
      then (if onset_time = 0 \<or> total_frames = 0 then Inl ValueError else Inl OverflowError)
      else Inr (py_int ((onset_time / duration) * real_of_int total_frames)))"

fun onset_frames :: "real \<Rightarrow> int \<Rightarrow> real list \<Rightarrow> py_error + int list" where
  "onset_frames duration total_frames [] = Inr []"
| "onset_frames duration total_frames (onset_time # rest) =
     (case onset_frame duration total_frames onset_time of
        Inl e \<Rightarrow> Inl e
      | Inr frame_idx \<Rightarrow>
          (case onset_frames duration total_frames rest of
             Inl e \<Rightarrow> Inl e
           | Inr idxs \<Rightarrow> Inr (frame_idx # idxs)))"

definition pitches_per_interval :: "nat \<Rightarrow> real list \<Rightarrow> real list \<Rightarrow> py_error + int list" where
  "pitches_per_interval audio_length pitch_values onsets =
     (let total_frames = int (length pitch_values);
          duration = real audio_length / real_of_int SAMPLE_RATE
      in case onset_frames duration total_frames onsets of
           Inl e \<Rightarrow> Inl e
         | Inr num_of_pitches \<Rightarrow> Inr (num_of_pitches @ [total_frames]))"

text \<open>The body of the loop of \<open>_average_per_interval\<close>: the note of one interval.\<close>

definition interval_note :: "real list \<Rightarrow> int \<Rightarrow> int \<Rightarrow> int" where
  "interval_note pitch_values start_idx end_idx =
     (if start_idx < end_idx
      then let segment = py_slice pitch_values start_idx end_idx;
               valid_pitches = filter (\<lambda>p. 0 < p) segment
           in if 0 < length valid_pitches
              then get_note_number (np_mean valid_pitches)
              else 0
      else 0)"

text \<open>
  The loop over \<open>range(len(onsets) - 1)\<close>; reading the table out of range raises
  \<open>IndexError\<close>.
\<close>

fun average_loop :: "real list \<Rightarrow> int list \<Rightarrow> nat list \<Rightarrow> py_error + int list" where
  "average_loop pitch_values table [] = Inr []"
| "average_loop pitch_values table (i # rest) =
     (if i + 1 < length table
      then (case average_loop pitch_values table rest of
              Inl e \<Rightarrow> Inl e
            | Inr notes \<Rightarrow>
                Inr (interval_note pitch_values (table ! i) (table ! (i + 1)) # notes))
      else Inl IndexError)"

definition average_per_interval :: "real list \<Rightarrow> int list \<Rightarrow> real list \<Rightarrow> py_error + int list" where
  "average_per_interval pitch_values table onsets =
     average_loop pitch_values table [0 ..< length onsets - 1]"

text \<open>
  The loop \<open>for i in range(len(avg_pitch_values) - 1)\<close> reads the elements \<open>i\<close> and
  \<open>i + 1\<close>: a recursion over the consecutive pairs of the list.
\<close>

fun find_relative_pitch :: "int list \<Rightarrow> int list" where
  "find_relative_pitch (a # b # rest) =
     (let pitch_change = - 1 * (a - b)
      in if pitch_change = 0 \<or> 22 \<le> \<bar>pitch_change\<bar>
         then find_relative_pitch (b # rest)
         else pitch_change # find_relative_pitch (b # rest))"
| "find_relative_pitch _ = []"

text \<open>
  \<open>extract_features\<close>, from the tempo, the pitch values and the onsets that the pitch
  service returns for the audio. Any exception makes the result \<open>None\<close>.
\<close>

record features =
  f_tempo :: real
  f_relative_pitches :: "int list"
  f_pitch_count :: nat
  f_duration :: real
  f_onset_count :: nat

definition extract_features :: "nat \<Rightarrow> real \<Rightarrow> real list \<Rightarrow> real list \<Rightarrow> features option" where
  "extract_features audio_length tempo pitch_values onsets =
     (case pitches_per_interval audio_length pitch_values onsets of
        Inl e \<Rightarrow> None
      | Inr num_of_pitches \<Rightarrow>
          (case average_per_interval pitch_values num_of_pitches onsets of
             Inl e \<Rightarrow> None
           | Inr avg_pitches \<Rightarrow>
               (let relative_pitches =
                      (if 1 < length avg_pitches then find_relative_pitch avg_pitches else [])
                in Some \<lparr>f_tempo = tempo,
                         f_relative_pitches = relative_pitches,
                         f_pitch_count = length relative_pitches,
                         f_duration = real audio_length / real_of_int SAMPLE_RATE,
                         f_onset_count = length onsets\<rparr>)))"

subsection \<open>services/dtw.py\<close>

text \<open>
  A song of the database and the features of a query are dictionaries; a key that is
  absent is \<open>None\<close>, and \<open>d.get(key, default)\<close> is \<open>dict_get\<close>.
\<close>

record feature_dict =
  d_id :: "string option"
  d_name :: "string option"
  d_title :: "string option"
  d_artist :: "string option"
  d_cover_image :: "string option"
  d_theme_color :: "string option"
  d_path :: "string option"
  d_tempo :: "real option"
  d_pitch_count :: "int option"
  d_relative_pitches :: "int list option"

definition dict_get :: "'a option \<Rightarrow> 'a \<Rightarrow> 'a" where
  "dict_get v dflt = (case v of None \<Rightarrow> dflt | Some x \<Rightarrow> x)"

text \<open>\<open>np.std\<close>: the square root of the mean squared deviation.\<close>

definition np_std :: "real list \<Rightarrow> real" where
  "np_std xs = sqrt (np_mean (map (\<lambda>x. (x - np_mean xs)\<^sup>2) xs))"

text \<open>
  \<open>np.corrcoef(x, y)[0, 1]\<close>: the covariance matrix, normalised by \<open>N - 1\<close>, is divided
  by the two standard deviations and clipped to \<open>[-1, 1]\<close>. The result is \<open>nan\<close>, here
  \<open>None\<close>, when a division by zero occurs.
\<close>

definition np_cov :: "real list \<Rightarrow> real list \<Rightarrow> real" where
  "np_cov xs ys =
     sum_list (map2 (\<lambda>x y. (x - np_mean xs) * (y - np_mean ys)) xs ys) / (real (length xs) - 1)"

definition np_corrcoef :: "real list \<Rightarrow> real list \<Rightarrow> real option" where
  "np_corrcoef xs ys =
     (if length xs \<le> 1 \<or> np_cov xs xs = 0 \<or> np_cov ys ys = 0 then None
      else Some (min (max (np_cov xs ys / sqrt (np_cov xs xs) / sqrt (np_cov ys ys)) (- 1)) 1))"

text \<open>
  The tempo similarity; the division raises when the larger tempo is 0.
\<close>

definition tempo_similarity :: "real \<Rightarrow> real \<Rightarrow> py_error + real" where
  "tempo_similarity song_tempo user_tempo =
     (let tempo_diff = \<bar>song_tempo - user_tempo\<bar>
      in if max song_tempo user_tempo = 0 then Inl ZeroDivisionError
         else Inr (max 0 (1 - tempo_diff / max song_tempo user_tempo)))"

text \<open>The pitch similarity: the block \<open>if len(song_pitches) > 0 and len(user_pitches) > 0\<close>.\<close>

definition pitch_similarity :: "int list \<Rightarrow> int list \<Rightarrow> real" where
  "pitch_similarity song_pitches user_pitches =
     (if 0 < length song_pitches \<and> 0 < length user_pitches
      then
        let min_len = min (length song_pitches) (length user_pitches);
            song_segment = map real_of_int (take min_len song_pitches);
            user_segment = map real_of_int (take min_len user_pitches)
        in if 0 < np_std song_segment \<and> 0 < np_std user_segment
           then (case np_corrcoef song_segment user_segment of
                   None \<Rightarrow> 0
                 | Some pitch_corr \<Rightarrow> max 0 pitch_corr)
           else 1 / 2
      else 0)"

text \<open>The body of the \<open>try\<close> block of \<open>calculate_similarity\<close>.\<close>

definition calculate_similarity_body :: "feature_dict \<Rightarrow> feature_dict \<Rightarrow> py_error + real" where
  "calculate_similarity_body song_features user_features =
     (let song_pitches = dict_get (d_relative_pitches song_features) [];
          user_pitches = dict_get (d_relative_pitches user_features) []
      in if song_pitches = [] \<or> user_pitches = [] then Inr 0
         else
           let song_tempo = dict_get (d_tempo song_features) 120;
               user_tempo = dict_get (d_tempo user_features) 120
           in case tempo_similarity song_tempo user_tempo of
                Inl e \<Rightarrow> Inl e
              | Inr tempo_sim \<Rightarrow>
                  let pitch_sim = pitch_similarity song_pitches user_pitches;
                      similarity = (6 / 10 * pitch_sim + 4 / 10 * tempo_sim) * 100
                  in Inr (max 0 (min 100 similarity)))"

text \<open>\<open>except Exception: return 0.0\<close>.\<close>

definition calculate_similarity :: "feature_dict \<Rightarrow> feature_dict \<Rightarrow> real" where
  "calculate_similarity song_features user_features =
     (case calculate_similarity_body song_features user_features of
        Inl e \<Rightarrow> 0
      | Inr similarity \<Rightarrow> similarity)"

subsection \<open>services/matcher.py\<close>

record match =
  m_id :: string
  m_name :: string
  m_title :: string
  m_artist :: string
  m_cover_image :: "string option"
  m_theme_color :: "string option"
  m_path :: string
  m_similarity :: real
  m_tempo :: real
  m_pitch_count :: int

text \<open>The entry that the loop of \<open>find_best_matches\<close> appends for a song.\<close>

definition song_match :: "feature_dict \<Rightarrow> feature_dict \<Rightarrow> match" where
  "song_match user_features song =
     (let similarity = calculate_similarity song user_features
      in \<lparr>m_id = dict_get (d_id song) [],
          m_name = dict_get (d_name song) ''Unknown'',
          m_title = dict_get (d_title song) (dict_get (d_name song) ''Unknown''),
          m_artist = dict_get (d_artist song) ''Unknown Artist'',
          m_cover_image = d_cover_image song,
          m_theme_color = d_theme_color song,
          m_path = dict_get (d_path song) [],
          m_similarity = py_round_digits similarity 1,
          m_tempo = dict_get (d_tempo song) 0,
          m_pitch_count = dict_get (d_pitch_count song) 0\<rparr>)"

text \<open>
  \<open>matches.sort(key=..., reverse=True)\<close>: Python's sort is stable, also with
  \<open>reverse=True\<close>, so it is the stable sort on the negated key.
\<close>

definition sort_reverse :: "('a \<Rightarrow> real) \<Rightarrow> 'a list \<Rightarrow> 'a list" where
  "sort_reverse key xs = sort_key (\<lambda>x. - key x) xs"

definition find_best_matches :: "feature_dict \<Rightarrow> feature_dict list \<Rightarrow> int \<Rightarrow> match list" where
  "find_best_matches user_features database top_n =
     (let matches = map (song_match user_features) database;
          matches = sort_reverse m_similarity matches
      in py_slice_to matches top_n)"

text \<open>The call \<open>find_best_matches(user_features, database)\<close>, with the default \<open>top_n = 5\<close>.\<close>

definition find_best_matches_default :: "feature_dict \<Rightarrow> feature_dict list \<Rightarrow> match list" where
  "find_best_matches_default user_features database = find_best_matches user_features database 5"

subsection \<open>dsp_utils.py\<close>

text \<open>
  A pitch track of \<open>librosa.pyin\<close> is a sequence of frequencies with \<open>nan\<close>, here
  \<open>None\<close>, for the unvoiced frames; \<open>f0[~np.isnan(f0)]\<close> keeps the voiced ones.
\<close>

definition voiced :: "real option list \<Rightarrow> real list" where
  "voiced f0 = map the (filter (\<lambda>f. f \<noteq> None) f0)"

text \<open>\<open>librosa.hz_to_midi\<close>, for a positive frequency.\<close>

definition hz_to_midi :: "real \<Rightarrow> real" where
  "hz_to_midi f = 12 * (log 2 f - log 2 440) + 69"

text \<open>
  \<open>scipy.signal.medfilt\<close> with an odd kernel: the input is padded with zeros on both
  sides, and every output is the median of the window around its position.
\<close>

definition medfilt :: "real list \<Rightarrow> nat \<Rightarrow> real list" where
  "medfilt volume kernel_size =
     (let h = kernel_size div 2;
          padded = replicate h 0 @ volume @ replicate h 0
      in map (\<lambda>i. sort (take kernel_size (drop i padded)) ! h) [0 ..< length volume])"

text \<open>\<open>np.percentile\<close> of a non-empty array, with linear interpolation.\<close>

definition np_percentile :: "real list \<Rightarrow> real \<Rightarrow> real" where
  "np_percentile xs q =
     (let s = sort xs;
          pos = q / 100 * real (length xs - 1);
          lo = nat \<lfloor>pos\<rfloor>;
          hi = min (lo + 1) (length xs - 1)
      in s ! lo + (s ! hi - s ! lo) * (pos - real lo))"

text \<open>
  \<open>extract_pitch\<close>, from the mean of the RMS energy and the pitch track that librosa
  computes for the file. \<open>None\<close> is the result for audio that is too quiet or too short.
\<close>

definition extract_pitch :: "real \<Rightarrow> real option list \<Rightarrow> real list option" where
  "extract_pitch rms_mean f0 =
     (if rms_mean < 3 / 1000 then None
      else
        let f0_clean = voiced f0
        in if length f0_clean < 15 then None
           else
             let kernel_size =
                   min 5 (if length f0_clean mod 2 = 1 then int (length f0_clean)
                          else int (length f0_clean) - 1);
                 f0_clean = (if 3 \<le> kernel_size then medfilt f0_clean (nat kernel_size)
                             else f0_clean);
                 midi = map hz_to_midi f0_clean;
                 p5 = np_percentile midi 5;
                 p95 = np_percentile midi 95;
                 midi = np_clip midi p5 p95;
                 midi = map (\<lambda>x. x - np_mean midi) midi
             in Some midi)"

definition normalize_to_intervals :: "real list \<Rightarrow> real list" where
  "normalize_to_intervals pitch_midi =
     (if length pitch_midi < 2 then []
      else
        let intervals = np_diff pitch_midi;
            intervals = map (\<lambda>x. real_of_int (py_round x)) intervals;
            intervals = np_clip intervals (- 7) 7
        in intervals)"

text \<open>
  \<open>fastdtw\<close> is a function of the package of that name, which is not part of the
  repository: it is a parameter of the model. It returns a distance and an alignment
  path, or raises.
\<close>

type_synonym fastdtw_fn = "real list \<Rightarrow> real list \<Rightarrow> py_error + real \<times> (nat \<times> nat) list"

definition utils_compute_dtw_distance :: "fastdtw_fn \<Rightarrow> real list \<Rightarrow> real list \<Rightarrow> py_error + real \<times> nat" where
  "utils_compute_dtw_distance fastdtw seq1 seq2 =
     (case fastdtw seq1 seq2 of
        Inl e \<Rightarrow> Inl e
      | Inr (distance, path) \<Rightarrow>
          (let normalized = distance / (real (length path) + 1)
           in Inr (normalized, length path)))"

subsection \<open>dsp_engine.py\<close>

definition HOP_LENGTH :: int where
  "HOP_LENGTH = 512"

definition WINDOW_DURATION_SEC :: real where
  "WINDOW_DURATION_SEC = 15"

definition WINDOW_OVERLAP_SEC :: real where
  "WINDOW_OVERLAP_SEC = 5"

definition MIN_VALID_FRAMES :: int where
  "MIN_VALID_FRAMES = 10"

definition normalize_pitch_contour :: "real option list \<Rightarrow> py_error + real list" where
  "normalize_pitch_contour f0 =
     (let midi_notes = map (map_option hz_to_midi) f0;
          valid_notes = voiced midi_notes
      in if int (length valid_notes) < MIN_VALID_FRAMES then Inl ValueError
         else
           let mean_pitch = np_mean valid_notes;
               normalized = map (\<lambda>x. x - mean_pitch) valid_notes
           in Inr normalized)"

definition compute_dtw_distance :: "fastdtw_fn \<Rightarrow> real list \<Rightarrow> real list \<Rightarrow> py_error + real" where
  "compute_dtw_distance fastdtw seq1 seq2 =
     (case fastdtw seq1 seq2 of
        Inl e \<Rightarrow> Inl e
      | Inr (distance, path) \<Rightarrow> Inr distance)"

text \<open>
  The \<open>while\<close> loop of \<open>create_sliding_windows\<close>. It need not terminate: a run that
  never ends is \<open>None\<close>. The result is the start frame after the loop and the windows.
\<close>

type_synonym window = "real list \<times> real"

partial_function (option) window_loop ::
  "real list \<Rightarrow> real \<Rightarrow> int \<Rightarrow> int \<Rightarrow> int \<Rightarrow> window list \<Rightarrow> (py_error + int \<times> window list) option"
where
  "window_loop pitch_contour frames_per_second window_frames step_frames start_frame windows =
     (if start_frame + window_frames \<le> int (length pitch_contour)
      then (if frames_per_second = 0 then Some (Inl ZeroDivisionError)
            else window_loop pitch_contour frames_per_second window_frames step_frames
                   (start_frame + step_frames)
                   (windows @ [(py_slice pitch_contour start_frame (start_frame + window_frames),
                                real_of_int start_frame / frames_per_second)]))
      else Some (Inr (start_frame, windows)))"

definition window_frames_of :: "int \<Rightarrow> real \<Rightarrow> int" where
  "window_frames_of sr window_sec =
     py_int (window_sec * (real_of_int sr / real_of_int HOP_LENGTH))"

definition step_frames_of :: "int \<Rightarrow> real \<Rightarrow> real \<Rightarrow> int" where
  "step_frames_of sr window_sec overlap_sec =
     py_int ((window_sec - overlap_sec) * (real_of_int sr / real_of_int HOP_LENGTH))"

definition create_sliding_windows ::
  "real list \<Rightarrow> int \<Rightarrow> real \<Rightarrow> real \<Rightarrow> (py_error + window list) option" where
  "create_sliding_windows pitch_contour sr window_sec overlap_sec =
     (let frames_per_second = real_of_int sr / real_of_int HOP_LENGTH;
          window_frames = window_frames_of sr window_sec;
          step_frames = step_frames_of sr window_sec overlap_sec
      in case window_loop pitch_contour frames_per_second window_frames step_frames 0 [] of
           None \<Rightarrow> None
         | Some (Inl e) \<Rightarrow> Some (Inl e)
         | Some (Inr (start_frame, windows)) \<Rightarrow>
             if start_frame < int (length pitch_contour)
             then
               let window = py_slice_from pitch_contour start_frame
               in if MIN_VALID_FRAMES \<le> int (length window)
                  then (if frames_per_second = 0 then Some (Inl ZeroDivisionError)
                        else Some (Inr (windows @
                               [(window, real_of_int start_frame / frames_per_second)])))
                  else Some (Inr windows)
             else Some (Inr windows))"

text \<open>\<open>identify_melody\<close>: the result type and the scan over the windows of the songs.\<close>

record match_result =
  song_title :: string
  confidence_score :: real
  match_start_time :: real
  dtw_distance :: real
  hum_pitch :: "real list"
  song_pitch :: "real list"

text \<open>
  The state of the scan is the best match so far and its distance, \<open>None\<close> for the
  initial distance \<open>float('inf')\<close>.
\<close>

type_synonym scan_state = "match_result option \<times> real option"

fun scan_windows ::
  "fastdtw_fn \<Rightarrow> real list \<Rightarrow> string \<Rightarrow> window list \<Rightarrow> scan_state \<Rightarrow> py_error + scan_state" where
  "scan_windows fastdtw hum_normalized title [] state = Inr state"
| "scan_windows fastdtw hum_normalized title ((window_contour, window_start_time) # rest)
     (best_match, best_distance) =
     (case compute_dtw_distance fastdtw hum_normalized window_contour of
        Inl e \<Rightarrow> Inl e
      | Inr distance \<Rightarrow>
          if (case best_distance of None \<Rightarrow> True | Some best \<Rightarrow> distance < best)
          then
            let confidence = max 0 (min 100 (100 - distance / 50));
                found = \<lparr>song_title = title,
                         confidence_score = py_round_digits confidence 2,
                         match_start_time = py_round_digits window_start_time 2,
                         dtw_distance = py_round_digits distance 2,
                         hum_pitch = hum_normalized,
                         song_pitch = window_contour\<rparr>
            in scan_windows fastdtw hum_normalized title rest (Some found, Some distance)
          else scan_windows fastdtw hum_normalized title rest (best_match, best_distance))"

fun scan_songs ::
  "fastdtw_fn \<Rightarrow> real list \<Rightarrow> (string \<times> window list) list \<Rightarrow> scan_state \<Rightarrow> py_error + scan_state" where
  "scan_songs fastdtw hum_normalized [] state = Inr state"
| "scan_songs fastdtw hum_normalized ((title, windows) # rest) state =
     (case scan_windows fastdtw hum_normalized title windows state of
        Inl e \<Rightarrow> Inl e
      | Inr state' \<Rightarrow> scan_songs fastdtw hum_normalized rest state')"

text \<open>
  \<open>identify_melody\<close>, from the songs that the database holds once it is loaded (title
  and windows, in the order of the cache) and the pitch track of the hum, or the
  exception that loading the hum raises.
\<close>

definition identify_melody ::
  "fastdtw_fn \<Rightarrow> py_error + real option list \<Rightarrow> (string \<times> window list) list
     \<Rightarrow> py_error + match_result option" where
  "identify_melody fastdtw hum songs =
     (let num_songs = length songs
      in if num_songs = 0 then Inr None
         else
           (case hum of
              Inl e \<Rightarrow> Inl e
            | Inr hum_f0 \<Rightarrow>
                (case normalize_pitch_contour hum_f0 of
                   Inl e \<Rightarrow> Inl e
                 | Inr hum_normalized \<Rightarrow>
                     (case scan_songs fastdtw hum_normalized songs (None, None) of
                        Inl e \<Rightarrow> Inl e
                      | Inr (best_match, best_distance) \<Rightarrow> Inr best_match))))"

subsection \<open>Notions of the specification\<close>

text \<open>
  The Pearson correlation of two sequences of the same length: the sum of the products
  of the deviations, over the square root of the product of the sums of the squared
  deviations. A sequence has zero variance when its squared deviations sum to 0.
\<close>

definition sum_sq_dev :: "real list \<Rightarrow> real" where
  "sum_sq_dev xs = sum_list (map (\<lambda>x. (x - np_mean xs)\<^sup>2) xs)"

definition sum_co_dev :: "real list \<Rightarrow> real list \<Rightarrow> real" where
  "sum_co_dev xs ys = sum_list (map2 (\<lambda>x y. (x - np_mean xs) * (y - np_mean ys)) xs ys)"

definition pearson :: "real list \<Rightarrow> real list \<Rightarrow> real" where
  "pearson xs ys = sum_co_dev xs ys / sqrt (sum_sq_dev xs * sum_sq_dev ys)"

definition zero_variance :: "real list \<Rightarrow> bool" where
  "zero_variance xs = (sum_sq_dev xs = 0)"

text \<open>The two interval sequences, truncated to the length of the shorter one.\<close>

definition song_segment_of :: "feature_dict \<Rightarrow> feature_dict \<Rightarrow> real list" where
  "song_segment_of song_features user_features =
     map real_of_int
       (take (length (dict_get (d_relative_pitches user_features) []))
          (dict_get (d_relative_pitches song_features) []))"

definition user_segment_of :: "feature_dict \<Rightarrow> feature_dict \<Rightarrow> real list" where
  "user_segment_of song_features user_features =
     map real_of_int
       (take (length (dict_get (d_relative_pitches song_features) []))
          (dict_get (d_relative_pitches user_features) []))"

definition tempo_proximity :: "feature_dict \<Rightarrow> feature_dict \<Rightarrow> real" where
  "tempo_proximity song_features user_features =
     (let a = dict_get (d_tempo song_features) 120; b = dict_get (d_tempo user_features) 120
      in max 0 (1 - \<bar>a - b\<bar> / max a b))"

text \<open>
  The pitch similarity as the specification words it: the correlation, floored at 0
  when it is negative or undefined.
\<close>

definition floored_pitch_similarity :: "real list \<Rightarrow> real list \<Rightarrow> real" where
  "floored_pitch_similarity xs ys =
     (if zero_variance xs \<or> zero_variance ys then 0 else max 0 (pearson xs ys))"

definition floored_similarity :: "feature_dict \<Rightarrow> feature_dict \<Rightarrow> real" where
  "floored_similarity song_features user_features =
     (6 / 10 * floored_pitch_similarity (song_segment_of song_features user_features)
                 (user_segment_of song_features user_features)
      + 4 / 10 * tempo_proximity song_features user_features) * 100"

text \<open>The pitch similarity with the value one half for a sequence of zero variance.\<close>

definition halved_pitch_similarity :: "real list \<Rightarrow> real list \<Rightarrow> real" where
  "halved_pitch_similarity xs ys =
     (if zero_variance xs \<or> zero_variance ys then 1 / 2 else max 0 (pearson xs ys))"

text \<open>Two example dictionaries.\<close>

definition flat_song :: feature_dict where
  "flat_song = \<lparr>d_id = Some ''b'', d_name = Some ''Flat'', d_title = None, d_artist = None,
     d_cover_image = None, d_theme_color = None, d_path = None, d_tempo = Some 120,
     d_pitch_count = Some 3, d_relative_pitches = Some [1, 1, 1]\<rparr>"

definition rising_query :: feature_dict where
  "rising_query = \<lparr>d_id = None, d_name = None, d_title = None, d_artist = None,
     d_cover_image = None, d_theme_color = None, d_path = None, d_tempo = Some 120,
     d_pitch_count = Some 3, d_relative_pitches = Some [1, 2, 3]\<rparr>"

text \<open>
  The number of window starts \<open>0, step, 2 * step, \<dots>\<close> at which a full window of
  \<open>window_frames\<close> frames fits into a contour of \<open>n\<close> frames.
\<close>

definition full_window_count :: "nat \<Rightarrow> int \<Rightarrow> int \<Rightarrow> nat" where
  "full_window_count n window_frames step_frames =
     (if window_frames \<le> int n then nat ((int n - window_frames) div step_frames) + 1 else 0)"

text \<open>
  The number of frames that lie after the end of the last full window (all frames when
  no full window fits): the residual, when it is counted from the end of that window.
\<close>

definition frames_after_full_windows :: "nat \<Rightarrow> int \<Rightarrow> int \<Rightarrow> int" where
  "frames_after_full_windows n window_frames step_frames =
     (let k = full_window_count n window_frames step_frames
      in if k = 0 then int n else int n - ((int k - 1) * step_frames + window_frames))"

text \<open>
  The interval contour as the specification words it: the rounded and clipped first
  differences, with their mean subtracted.
\<close>

definition mean_subtracted_intervals :: "real list \<Rightarrow> real list" where
  "mean_subtracted_intervals pitch_midi =
     (let intervals = np_clip (map (\<lambda>x. real_of_int (py_round x)) (np_diff pitch_midi)) (- 7) 7
      in map (\<lambda>x. x - np_mean intervals) intervals)"

text \<open>
  A ranking as the specification words it: by decreasing similarity, songs of equal
  similarity by ascending identifier.
\<close>

definition ranked_by_similarity_then_id :: "match list \<Rightarrow> bool" where
  "ranked_by_similarity_then_id ms =
     sorted_wrt (\<lambda>a b. m_similarity b < m_similarity a \<or>
                        (m_similarity a = m_similarity b \<and> m_id a \<le> m_id b)) ms"

text \<open>Two more example dictionaries.\<close>

definition level_song :: feature_dict where
  "level_song = \<lparr>d_id = Some ''a'', d_name = Some ''Level'', d_title = None, d_artist = None,
     d_cover_image = None, d_theme_color = None, d_path = None, d_tempo = Some 120,
     d_pitch_count = Some 2, d_relative_pitches = Some [3, 3]\<rparr>"

definition silent_query :: feature_dict where
  "silent_query = \<lparr>d_id = None, d_name = None, d_title = None, d_artist = None,
     d_cover_image = None, d_theme_color = None, d_path = None, d_tempo = Some 120,
     d_pitch_count = Some 0, d_relative_pitches = Some []\<rparr>"

text \<open>A sequence with its mean subtracted from every element.\<close>

definition centred :: "real list \<Rightarrow> real list" where
  "centred xs = map (\<lambda>x. x - np_mean xs) xs"

text \<open>
  Two stand-ins for the \<open>fastdtw\<close> parameter: one that returns the distance 0 with an
  empty path, one that raises.
\<close>

definition silent_fastdtw :: fastdtw_fn where
  "silent_fastdtw seq1 seq2 = Inr (0, [])"

definition raising_fastdtw :: fastdtw_fn where
  "raising_fastdtw seq1 seq2 = Inl IndexError"

text \<open>The changes between consecutive notes, for stating what \<open>_find_relative_pitch\<close> keeps.\<close>

fun consecutive_changes :: "int list \<Rightarrow> int list" where
  "consecutive_changes (a # b # rest) = (b - a) # consecutive_changes (b # rest)"
| "consecutive_changes _ = []"

section \<open>Properties\<close>

subsection \<open>Relative pitches\<close>

lemma find_relative_pitch_filter:
  "find_relative_pitch xs = filter (\<lambda>d. d \<noteq> 0 \<and> \<bar>d\<bar> < 22) (consecutive_changes xs)"
  by (induction xs rule: find_relative_pitch.induct) (auto simp: Let_def)

text \<open>
  C10. Every element of the relative-pitch sequence is nonzero and smaller than 22 in
  absolute value: the sequence consists of exactly the changes between consecutive
  notes that are neither 0 nor of 22 semitones or more, in their order; the other
  changes are left out, neither kept nor clipped.
\<close>

theorem find_relative_pitch_range:
  "(\<forall>d \<in> set (find_relative_pitch xs). d \<noteq> 0 \<and> \<bar>d\<bar> < 22) \<and>
   find_relative_pitch xs = filter (\<lambda>d. d \<noteq> 0 \<and> \<bar>d\<bar> < 22) (consecutive_changes xs)"
  by (simp add: find_relative_pitch_filter)

theorem find_relative_pitch_range_witness:
  "find_relative_pitch [40, 40, 42, 70, 45, 44] = [2, - 1] \<and>
   list_all (\<lambda>d. d \<noteq> 0 \<and> \<bar>d\<bar> < 22) (find_relative_pitch [40, 40, 42, 70, 45, 44])"
  using find_relative_pitch_range [of "[40, 40, 42, 70, 45, 44]"] by simp

subsection \<open>Onset intervals\<close>

lemma take_drop_take:
  "h \<le> k \<Longrightarrow> take (h - l) (drop l (take k xs)) = take (h - l) (drop l xs)"
proof -
  assume "h \<le> k"
  then have "h - l \<le> k - l" by (rule diff_le_mono)
  then show ?thesis by (simp add: drop_take min_absorb1)
qed

lemma py_slice_take:
  assumes "0 \<le> s" "0 \<le> e" "e \<le> int k"
  shows "py_slice (take k xs) s e = py_slice xs s e"
proof (cases "nat s \<le> k")
  case True
  have ek: "nat e \<le> k" using assms by linarith
  have lo: "py_index (length (take k xs)) s = py_index (length xs) s"
    using True assms(1) by (simp add: py_index_def min_def)
  have hi: "py_index (length (take k xs)) e = py_index (length xs) e"
    using ek assms(2) by (simp add: py_index_def min_def)
  have "py_index (length xs) e \<le> k"
    using ek assms(2) by (simp add: py_index_def min_def)
  then show ?thesis
    unfolding py_slice_def Let_def lo hi by (rule take_drop_take)
next
  case False
  then have es: "nat e \<le> nat s" using assms by linarith
  have "py_index n e - py_index n s = 0" for n
    using es assms(1,2) by (simp add: py_index_def min_def)
  then show ?thesis
    unfolding py_slice_def Let_def by simp
qed

lemma py_int_mono_nonneg: "0 \<le> x \<Longrightarrow> x \<le> y \<Longrightarrow> 0 \<le> py_int x \<and> py_int x \<le> py_int y"
  by (auto simp: py_int_def floor_mono)

lemma onset_frames_Inr:
  "duration \<noteq> 0 \<Longrightarrow> onset_frames duration tot onsets =
     Inr (map (\<lambda>t. py_int ((t / duration) * real_of_int tot)) onsets)"
  by (induction onsets) (auto simp: onset_frame_def)

lemma average_loop_Inr:
  "\<forall>i \<in> set is. i + 1 < length table \<Longrightarrow>
   average_loop pv table is = Inr (map (\<lambda>i. interval_note pv (table ! i) (table ! (i + 1))) is)"
  by (induction "is") auto

lemma interval_note_take:
  assumes "0 \<le> s" "0 \<le> e" "e \<le> int k" "take k pv = take k pv'"
  shows "interval_note pv s e = interval_note pv' s e"
proof -
  have "py_slice pv s e = py_slice (take k pv) s e"
    by (rule py_slice_take [OF assms(1-3), symmetric])
  also have "\<dots> = py_slice (take k pv') s e"
    by (simp only: assms(4))
  also have "\<dots> = py_slice pv' s e"
    by (rule py_slice_take [OF assms(1-3)])
  finally show ?thesis by (simp add: interval_note_def)
qed


lemma onset_frame_mono:
  assumes "0 < d" "0 \<le> t" "t \<le> t'"
  shows "0 \<le> py_int ((t / d) * real n) \<and> py_int ((t / d) * real n) \<le> py_int ((t' / d) * real n)"
proof (rule py_int_mono_nonneg)
  show "0 \<le> t / d * real n" using assms by simp
  have "t / d \<le> t' / d" using assms by (simp add: divide_right_mono)
  then show "t / d * real n \<le> t' / d * real n" by (rule mult_right_mono) simp
qed

text \<open>
  C9. For \<open>N\<close> onsets the boundary table of \<open>_pitches_per_interval\<close> has \<open>N + 1\<close>
  entries, and \<open>_average_per_interval\<close> yields \<open>N - 1\<close> averages: its loop never reads
  the last entry of the table, so the frames from the last onset to the end of the audio
  contribute neither to the averages nor to the extracted features. Two pitch tracks of
  the same length that agree before the frame of the last onset have the same averages and
  the same features.
\<close>

theorem final_interval_dropped:
  fixes audio_length :: nat and pv pv' onsets :: "real list" and tempo :: real
  defines "last_frame \<equiv>
     py_int ((last onsets / (real audio_length / real_of_int SAMPLE_RATE)) * real (length pv))"
  assumes len: "0 < audio_length" and ne: "onsets \<noteq> []"
    and srt: "sorted onsets" and pos: "\<forall>t \<in> set onsets. 0 \<le> t"
    and same_len: "length pv' = length pv"
    and agree: "take (nat last_frame) pv' = take (nat last_frame) pv"
  shows "\<exists>table avgs.
     pitches_per_interval audio_length pv onsets = Inr table \<and>
     pitches_per_interval audio_length pv' onsets = Inr table \<and>
     length table = length onsets + 1 \<and>
     average_per_interval pv table onsets = Inr avgs \<and>
     length avgs = length onsets - 1 \<and>
     average_per_interval pv (butlast table) onsets = Inr avgs \<and>
     average_per_interval pv' table onsets = Inr avgs \<and>
     extract_features audio_length tempo pv' onsets =
       extract_features audio_length tempo pv onsets"
proof -
  define d where "d = real audio_length / real_of_int SAMPLE_RATE"
  define g where "g = (\<lambda>t. py_int ((t / d) * real (length pv)))"
  define table where "table = map g onsets @ [int (length pv)]"
  define avgs where
    "avgs = map (\<lambda>i. interval_note pv (table ! i) (table ! (i + 1))) [0 ..< length onsets - 1]"
  have dpos: "0 < d" using len by (simp add: d_def SAMPLE_RATE_def)
  have frames: "onset_frames d (int (length pv)) onsets = Inr (map g onsets)"
    using dpos by (simp add: onset_frames_Inr g_def)
  have tab: "pitches_per_interval audio_length pv onsets = Inr table"
    by (simp only: pitches_per_interval_def Let_def d_def [symmetric] frames table_def sum.case)
  have tab': "pitches_per_interval audio_length pv' onsets = Inr table"
    by (simp only: pitches_per_interval_def Let_def d_def [symmetric] same_len frames
        table_def sum.case)
  have ltab: "length table = length onsets + 1" by (simp add: table_def)
  have avg: "average_per_interval pv table onsets = Inr avgs"
    unfolding average_per_interval_def avgs_def
    by (rule average_loop_Inr) (auto simp: ltab)
  have lavg: "length avgs = length onsets - 1" by (simp add: avgs_def)
  have nth_tab: "table ! i = g (onsets ! i)" if "i < length onsets" for i
    using that by (simp add: table_def nth_append)
  have avg_bl: "average_per_interval pv (butlast table) onsets = Inr avgs"
  proof -
    have "average_loop pv (butlast table) [0 ..< length onsets - 1] =
          Inr (map (\<lambda>i. interval_note pv (butlast table ! i) (butlast table ! (i + 1)))
                 [0 ..< length onsets - 1])"
      by (rule average_loop_Inr) (auto simp: ltab)
    moreover have "map (\<lambda>i. interval_note pv (butlast table ! i) (butlast table ! (i + 1)))
                 [0 ..< length onsets - 1] = avgs"
      unfolding avgs_def by (rule map_cong) (auto simp: nth_butlast ltab)
    ultimately show ?thesis by (simp add: average_per_interval_def)
  qed
  have lf: "last_frame = g (last onsets)"
    by (simp add: last_frame_def g_def d_def)
  have same: "interval_note pv' (table ! i) (table ! (i + 1)) =
              interval_note pv (table ! i) (table ! (i + 1))" if i: "i < length onsets - 1" for i
  proof (rule interval_note_take [where k = "nat last_frame"])
    have i1: "i < length onsets" and i2: "i + 1 < length onsets" using i by auto
    have p1: "0 \<le> onsets ! i" and p2: "0 \<le> onsets ! (i + 1)"
      using pos i1 i2 by (auto simp: nth_mem)
    have le: "onsets ! (i + 1) \<le> last onsets"
      using srt i2 ne by (simp add: last_conv_nth sorted_nth_mono)
    show "0 \<le> table ! i"
      using onset_frame_mono [OF dpos p1 order_refl, of "length pv"] i1
      by (simp add: nth_tab g_def)
    show "0 \<le> table ! (i + 1)"
      using onset_frame_mono [OF dpos p2 order_refl, of "length pv"] i2
      by (simp add: nth_tab g_def)
    have "table ! (i + 1) \<le> last_frame"
      using onset_frame_mono [OF dpos p2 le, of "length pv"] i2
      by (simp add: nth_tab g_def lf)
    then show "table ! (i + 1) \<le> int (nat last_frame)" by simp
    show "take (nat last_frame) pv' = take (nat last_frame) pv" by (rule agree)
  qed
  have avg': "average_per_interval pv' table onsets = Inr avgs"
  proof -
    have "average_loop pv' table [0 ..< length onsets - 1] =
          Inr (map (\<lambda>i. interval_note pv' (table ! i) (table ! (i + 1)))
                 [0 ..< length onsets - 1])"
      by (rule average_loop_Inr) (auto simp: ltab)
    moreover have "map (\<lambda>i. interval_note pv' (table ! i) (table ! (i + 1)))
                 [0 ..< length onsets - 1] = avgs"
      unfolding avgs_def
    proof (rule map_cong [OF refl])
      fix i assume "i \<in> set [0 ..< length onsets - 1]"
      then have "i < length onsets - 1" by simp
      then show "interval_note pv' (table ! i) (table ! (i + 1)) =
                 interval_note pv (table ! i) (table ! (i + 1))" by (rule same)
    qed
    ultimately show ?thesis by (simp add: average_per_interval_def)
  qed
  have ef: "extract_features audio_length tempo pv' onsets =
            extract_features audio_length tempo pv onsets"
    by (simp add: extract_features_def tab tab' avg avg')
  show ?thesis
    using tab tab' ltab avg lavg avg_bl avg' ef by blast
qed

lemmas melody_eval =
  extract_features_def pitches_per_interval_def onset_frame_def average_per_interval_def
  interval_note_def py_slice_def py_index_def np_mean_def get_note_number_def py_round_def
  py_int_def SAMPLE_RATE_def Let_def upt_rec

lemma extract_features_example: "extract_features 22050 120 [440, 440, 880, 880, 880, 880, 100, 100] [0, 1 / 4, 3 / 4] =
     Some \<lparr>f_tempo = 120, f_relative_pitches = [12], f_pitch_count = 1,
           f_duration = 1, f_onset_count = 3\<rparr>"
  by (simp add: melody_eval)

theorem final_interval_dropped_witness:
  "extract_features 22050 120 [440, 440, 880, 880, 880, 880, 100, 100] [0, 1 / 4, 3 / 4] =
     Some \<lparr>f_tempo = 120, f_relative_pitches = [12], f_pitch_count = 1,
           f_duration = 1, f_onset_count = 3\<rparr> \<and>
   extract_features 22050 120 [440, 440, 880, 880, 880, 880, 300, 0] [0, 1 / 4, 3 / 4] =
     extract_features 22050 120 [440, 440, 880, 880, 880, 880, 100, 100] [0, 1 / 4, 3 / 4]"
proof -
  have "extract_features 22050 120 [440, 440, 880, 880, 880, 880, 300, 0] [0, 1 / 4, 3 / 4] =
     extract_features 22050 120 [440, 440, 880, 880, 880, 880, 100, 100] [0, 1 / 4, 3 / 4]"
    using final_interval_dropped [of 22050 "[0, 1 / 4, 3 / 4]"
      "[440, 440, 880, 880, 880, 880, 300, 0]" "[440, 440, 880, 880, 880, 880, 100, 100]" 120]
    by (auto simp add: SAMPLE_RATE_def py_int_def)
  then show ?thesis by (simp add: extract_features_example)
qed

subsection \<open>The correlation-based similarity\<close>

lemma sum_list_quadratic:
  fixes ps :: "(real \<times> real) list"
  shows "sum_list (map (\<lambda>(a, b). (a * t - b)\<^sup>2) ps) =
           t\<^sup>2 * sum_list (map (\<lambda>(a, b). a\<^sup>2) ps)
           - 2 * t * sum_list (map (\<lambda>(a, b). a * b) ps)
           + sum_list (map (\<lambda>(a, b). b\<^sup>2) ps)"
  by (induction ps) (auto simp: power2_eq_square algebra_simps)

lemma cauchy_schwarz_pairs:
  fixes ps :: "(real \<times> real) list"
  assumes "0 < sum_list (map (\<lambda>(a, b). a\<^sup>2) ps)"
  shows "(sum_list (map (\<lambda>(a, b). a * b) ps))\<^sup>2 \<le>
         sum_list (map (\<lambda>(a, b). a\<^sup>2) ps) * sum_list (map (\<lambda>(a, b). b\<^sup>2) ps)"
proof -
  define A where "A = sum_list (map (\<lambda>(a, b). a\<^sup>2) ps)"
  define B where "B = sum_list (map (\<lambda>(a, b). b\<^sup>2) ps)"
  define C where "C = sum_list (map (\<lambda>(a, b). a * b) ps)"
  have A: "0 < A" using assms by (simp add: A_def)
  have q: "sum_list (map (\<lambda>(a, b). (a * (C / A) - b)\<^sup>2) ps) =
           (C / A)\<^sup>2 * A - 2 * (C / A) * C + B"
    unfolding A_def B_def C_def by (rule sum_list_quadratic)
  have "0 \<le> sum_list (map (\<lambda>(a, b). (a * (C / A) - b)\<^sup>2) ps)"
    by (rule sum_list_nonneg) auto
  then have "0 \<le> (C / A)\<^sup>2 * A - 2 * (C / A) * C + B"
    unfolding q .
  moreover have "(C / A)\<^sup>2 * A - 2 * (C / A) * C + B = B - C\<^sup>2 / A"
    using A by (simp add: power2_eq_square field_simps)
  ultimately have "C\<^sup>2 / A \<le> B" by simp
  then have "C\<^sup>2 \<le> B * A" using A by (simp add: pos_divide_le_eq)
  then show ?thesis by (simp add: A_def B_def C_def mult.commute)
qed

lemma sum_sq_dev_nonneg: "0 \<le> sum_sq_dev xs"
  unfolding sum_sq_dev_def by (rule sum_list_nonneg) auto

lemma sum_sq_dev_pairs:
  "length xs = length ys \<Longrightarrow>
   sum_list (map (\<lambda>(a, b). a\<^sup>2) (zip (map (\<lambda>x. x - m) xs) (map (\<lambda>y. y - n) ys))) =
   sum_list (map (\<lambda>x. (x - m)\<^sup>2) xs)"
  by (induction xs ys rule: list_induct2) auto

lemma sum_sq_dev_pairs2:
  "length xs = length ys \<Longrightarrow>
   sum_list (map (\<lambda>(a, b). b\<^sup>2) (zip (map (\<lambda>x. x - m) xs) (map (\<lambda>y. y - n) ys))) =
   sum_list (map (\<lambda>y. (y - n)\<^sup>2) ys)"
  by (induction xs ys rule: list_induct2) auto

lemma sum_co_dev_pairs:
  "sum_list (map (\<lambda>(a, b). a * b) (zip (map (\<lambda>x. x - m) xs) (map (\<lambda>y. y - n) ys))) =
   sum_list (map2 (\<lambda>x y. (x - m) * (y - n)) xs ys)"
  by (induction xs arbitrary: ys) (auto simp: zip_Cons1 split: list.splits)

lemma co_dev_bound:
  assumes "length xs = length ys" "0 < sum_sq_dev xs"
  shows "(sum_co_dev xs ys)\<^sup>2 \<le> sum_sq_dev xs * sum_sq_dev ys"
  using cauchy_schwarz_pairs [of "zip (map (\<lambda>x. x - np_mean xs) xs) (map (\<lambda>y. y - np_mean ys) ys)"]
    assms
  by (simp add: sum_sq_dev_pairs sum_sq_dev_pairs2 sum_co_dev_pairs sum_sq_dev_def sum_co_dev_def)

lemma pearson_range:
  assumes "length xs = length ys" "0 < sum_sq_dev xs" "0 < sum_sq_dev ys"
  shows "- 1 \<le> pearson xs ys \<and> pearson xs ys \<le> 1"
proof -
  have "\<bar>sum_co_dev xs ys\<bar> = sqrt ((sum_co_dev xs ys)\<^sup>2)" by simp
  also have "\<dots> \<le> sqrt (sum_sq_dev xs * sum_sq_dev ys)"
    using co_dev_bound [OF assms(1,2)] by (rule real_sqrt_le_mono)
  finally have le: "\<bar>sum_co_dev xs ys\<bar> \<le> sqrt (sum_sq_dev xs * sum_sq_dev ys)" .
  have pos: "0 < sqrt (sum_sq_dev xs * sum_sq_dev ys)"
    using assms(2,3) by simp
  have "\<bar>pearson xs ys\<bar> \<le> 1"
    using le pos by (simp add: pearson_def)
  then show ?thesis by (simp add: abs_le_iff)
qed


lemma sum_sq_dev_short: "length xs \<le> 1 \<Longrightarrow> sum_sq_dev xs = 0"
  by (cases xs) (auto simp: sum_sq_dev_def np_mean_def)

lemma np_std_pos_iff: "0 < np_std xs \<longleftrightarrow> \<not> zero_variance xs"
proof (cases "xs = []")
  case True
  then show ?thesis by (simp add: np_std_def np_mean_def zero_variance_def sum_sq_dev_def)
next
  case False
  then have n: "0 < real (length xs)" by simp
  have "np_std xs = sqrt (sum_sq_dev xs / real (length xs))"
    by (simp add: np_std_def np_mean_def sum_sq_dev_def)
  then have "0 < np_std xs \<longleftrightarrow> 0 < sum_sq_dev xs"
    using n by (simp add: zero_less_divide_iff)
  then show ?thesis
    using sum_sq_dev_nonneg [of xs] by (auto simp: zero_variance_def)
qed

lemma np_cov_self: "np_cov xs xs = sum_sq_dev xs / (real (length xs) - 1)"
  by (simp add: np_cov_def sum_sq_dev_def zip_same_conv_map comp_def power2_eq_square)

lemma np_cov_co_dev: "np_cov xs ys = sum_co_dev xs ys / (real (length xs) - 1)"
  by (simp add: np_cov_def sum_co_dev_def)

lemma np_corrcoef_pearson:
  assumes len: "length xs = length ys" and x: "0 < sum_sq_dev xs" and y: "0 < sum_sq_dev ys"
  shows "np_corrcoef xs ys = Some (pearson xs ys)"
proof -
  have long: "\<not> length xs \<le> 1" using x sum_sq_dev_short [of xs] by auto
  define k where "k = real (length xs) - 1"
  define rk where "rk = sqrt k"
  define sx where "sx = sqrt (sum_sq_dev xs)"
  define sy where "sy = sqrt (sum_sq_dev ys)"
  have kpos: "0 < k" using long by (simp add: k_def)
  have rk: "0 < rk" "rk * rk = k" using kpos by (simp_all add: rk_def)
  have sxy: "0 < sx" "0 < sy" using x y by (simp_all add: sx_def sy_def)
  have cx: "sqrt (np_cov xs xs) = sx / rk"
    by (simp add: np_cov_self k_def [symmetric] real_sqrt_divide sx_def rk_def)
  have cy: "sqrt (np_cov ys ys) = sy / rk"
    by (simp add: np_cov_self len [symmetric] k_def [symmetric] real_sqrt_divide sy_def rk_def)
  have cxy: "np_cov xs ys = sum_co_dev xs ys / (rk * rk)"
    by (simp only: np_cov_co_dev k_def [symmetric] rk(2))
  have "np_cov xs ys / sqrt (np_cov xs xs) / sqrt (np_cov ys ys) =
        sum_co_dev xs ys / (rk * rk) / (sx / rk) / (sy / rk)"
    by (simp only: cx cy cxy)
  also have "\<dots> = sum_co_dev xs ys / (sx * sy)"
    using rk(1) sxy by (simp add: field_simps)
  also have "\<dots> = pearson xs ys"
    by (simp add: pearson_def real_sqrt_mult sx_def sy_def)
  finally have eq: "np_cov xs ys / sqrt (np_cov xs xs) / sqrt (np_cov ys ys) = pearson xs ys" .
  have nz: "np_cov xs xs \<noteq> 0" "np_cov ys ys \<noteq> 0"
    using x y kpos by (simp_all add: np_cov_self len [symmetric] k_def [symmetric])
  show ?thesis
    unfolding np_corrcoef_def eq
    using long nz pearson_range [OF len x y] by simp
qed

lemma take_min_length: "take (min (length xs) n) xs = take n xs"
  by (simp add: min_def)

lemma pitch_similarity_halved:
  assumes "song_pitches \<noteq> []" "user_pitches \<noteq> []"
  shows "pitch_similarity song_pitches user_pitches =
         halved_pitch_similarity
           (map real_of_int (take (length user_pitches) song_pitches))
           (map real_of_int (take (length song_pitches) user_pitches))"
proof -
  define xs where "xs = map real_of_int (take (length user_pitches) song_pitches)"
  define ys where "ys = map real_of_int (take (length song_pitches) user_pitches)"
  have sx: "map real_of_int (take (min (length song_pitches) (length user_pitches)) song_pitches) = xs"
    by (simp only: xs_def take_min_length)
  have sy: "map real_of_int (take (min (length song_pitches) (length user_pitches)) user_pitches) = ys"
    by (simp only: ys_def min.commute [of "length song_pitches"] take_min_length)
  have len: "length xs = length ys"
    by (simp add: xs_def ys_def min.commute)
  have unfold: "pitch_similarity song_pitches user_pitches =
      (if 0 < np_std xs \<and> 0 < np_std ys
       then (case np_corrcoef xs ys of None \<Rightarrow> 0 | Some pitch_corr \<Rightarrow> max 0 pitch_corr)
       else 1 / 2)"
    using assms by (simp only: pitch_similarity_def Let_def sx sy length_greater_0_conv simp_thms if_True)
  show ?thesis
  proof (cases "zero_variance xs \<or> zero_variance ys")
    case True
    then show ?thesis
      unfolding unfold xs_def [symmetric] ys_def [symmetric]
      by (auto simp: np_std_pos_iff halved_pitch_similarity_def)
  next
    case False
    then have "0 < sum_sq_dev xs" "0 < sum_sq_dev ys"
      using sum_sq_dev_nonneg [of xs] sum_sq_dev_nonneg [of ys]
      by (auto simp: zero_variance_def)
    then have "np_corrcoef xs ys = Some (pearson xs ys)"
      using len by (simp add: np_corrcoef_pearson)
    then show ?thesis
      unfolding unfold xs_def [symmetric] ys_def [symmetric]
      using False by (simp add: np_std_pos_iff halved_pitch_similarity_def)
  qed
qed

lemma halved_pitch_similarity_range:
  assumes len: "length xs = length ys"
  shows "0 \<le> halved_pitch_similarity xs ys \<and> halved_pitch_similarity xs ys \<le> 1"
proof (cases "zero_variance xs \<or> zero_variance ys")
  case True
  then show ?thesis by (auto simp: halved_pitch_similarity_def)
next
  case False
  then have "0 < sum_sq_dev xs" "0 < sum_sq_dev ys"
    using sum_sq_dev_nonneg [of xs] sum_sq_dev_nonneg [of ys]
    by (auto simp: zero_variance_def)
  then have "pearson xs ys \<le> 1" using pearson_range [OF len] by simp
  then show ?thesis using False by (simp add: halved_pitch_similarity_def)
qed

text \<open>
  C1 (as amended). For two non-empty interval sequences and a positive larger tempo, the
  score of \<open>calculate_similarity\<close> is the blend
  \<open>(0.6 * pitch + 0.4 * tempo) * 100\<close>, where the tempo part is
  \<open>max(0, 1 - |a - b| / max(a, b))\<close> and the pitch part is the Pearson correlation of
  the two sequences truncated to the same length, floored at 0 when it is negative, and
  one half (not 0) when one of the truncated sequences has zero variance. The blend lies
  between 0 and 100, so the final clamp changes nothing.
\<close>

theorem calculate_similarity_blend:
  assumes song: "dict_get (d_relative_pitches song_features) [] \<noteq> []"
    and user: "dict_get (d_relative_pitches user_features) [] \<noteq> []"
    and tempo: "0 < max (dict_get (d_tempo song_features) 120) (dict_get (d_tempo user_features) 120)"
  shows "calculate_similarity song_features user_features =
           (6 / 10 * halved_pitch_similarity (song_segment_of song_features user_features)
                       (user_segment_of song_features user_features)
            + 4 / 10 * tempo_proximity song_features user_features) * 100"
proof -
  define xs where "xs = song_segment_of song_features user_features"
  define ys where "ys = user_segment_of song_features user_features"
  define ts where "ts = tempo_proximity song_features user_features"
  define ps where "ps = halved_pitch_similarity xs ys"
  have len: "length xs = length ys"
    by (simp add: xs_def ys_def song_segment_of_def user_segment_of_def min.commute)
  have ts_range: "0 \<le> ts \<and> ts \<le> 1"
    using tempo by (simp add: ts_def tempo_proximity_def Let_def)
  have ps_range: "0 \<le> ps \<and> ps \<le> 1"
    unfolding ps_def by (rule halved_pitch_similarity_range [OF len])
  have tsim: "tempo_similarity (dict_get (d_tempo song_features) 120)
                (dict_get (d_tempo user_features) 120) = Inr ts"
    using tempo by (simp add: tempo_similarity_def ts_def tempo_proximity_def Let_def)
  have psim: "pitch_similarity (dict_get (d_relative_pitches song_features) [])
                (dict_get (d_relative_pitches user_features) []) = ps"
    unfolding ps_def xs_def ys_def song_segment_of_def user_segment_of_def
    by (rule pitch_similarity_halved [OF song user])
  have clamp: "max 0 (min 100 ((6 / 10 * ps + 4 / 10 * ts) * 100)) = (6 / 10 * ps + 4 / 10 * ts) * 100"
    using ps_range ts_range by (simp add: max_def min_def)
  have body: "calculate_similarity_body song_features user_features =
        Inr (max 0 (min 100 ((6 / 10 * ps + 4 / 10 * ts) * 100)))"
    using song user by (simp add: calculate_similarity_body_def Let_def tsim psim)
  have "calculate_similarity song_features user_features = (6 / 10 * ps + 4 / 10 * ts) * 100"
    by (simp only: calculate_similarity_def body sum.case clamp)
  then show ?thesis
    unfolding ps_def xs_def ys_def ts_def .
qed

lemmas similarity_eval =
  calculate_similarity_def calculate_similarity_body_def tempo_similarity_def
  pitch_similarity_def dict_get_def np_std_def np_mean_def Let_def np_corrcoef_def np_cov_def

theorem calculate_similarity_blend_witness:
  "calculate_similarity flat_song rising_query = 70 \<and>
   halved_pitch_similarity (song_segment_of flat_song rising_query)
     (user_segment_of flat_song rising_query) = 1 / 2 \<and>
   tempo_proximity flat_song rising_query = 1"
  using calculate_similarity_blend [of flat_song rising_query]
  by (simp add: flat_song_def rising_query_def dict_get_def halved_pitch_similarity_def
      song_segment_of_def user_segment_of_def tempo_proximity_def zero_variance_def
      sum_sq_dev_def np_mean_def)

text \<open>
  The claim C1 as stated fails: a song whose intervals are constant scores 70 against a
  query of the same tempo, where a pitch similarity floored at 0 would give 40.
\<close>

theorem zero_variance_not_floored:
  "calculate_similarity flat_song rising_query = 70 \<and>
   zero_variance (song_segment_of flat_song rising_query) \<and>
   floored_similarity flat_song rising_query = 40"
  by (simp add: similarity_eval flat_song_def rising_query_def floored_similarity_def
      floored_pitch_similarity_def song_segment_of_def user_segment_of_def tempo_proximity_def
      zero_variance_def sum_sq_dev_def)

subsection \<open>Sliding windows\<close>

lemma window_loop_unroll:
  assumes step: "0 < step" and fps: "fps \<noteq> 0"
    and fit: "\<forall>i<j. start + int i * step + W \<le> int (length c)"
    and stop: "int (length c) < start + int j * step + W"
  shows "window_loop c fps W step start acc =
         Some (Inr (start + int j * step,
           acc @ map (\<lambda>i. (py_slice c (start + int i * step) (start + int i * step + W),
                           real_of_int (start + int i * step) / fps)) [0 ..< j]))"
  using fit stop
proof (induction j arbitrary: start acc)
  case 0
  then show ?case by (subst window_loop.simps) simp
next
  case (Suc j)
  have first: "start + W \<le> int (length c)" using Suc.prems(1) by force
  have fit': "\<forall>i<j. (start + step) + int i * step + W \<le> int (length c)"
  proof (intro allI impI)
    fix i assume "i < j"
    then have "start + int (Suc i) * step + W \<le> int (length c)" using Suc.prems(1) by blast
    then show "(start + step) + int i * step + W \<le> int (length c)" by (simp add: algebra_simps)
  qed
  have stop': "int (length c) < (start + step) + int j * step + W"
    using Suc.prems(2) by (simp add: algebra_simps)
  have shift: "map (\<lambda>i. (py_slice c (start + int i * step) (start + int i * step + W),
                           real_of_int (start + int i * step) / fps)) [0 ..< Suc j] =
        (py_slice c start (start + W), real_of_int start / fps) #
        map (\<lambda>i. (py_slice c (start + step + int i * step) (start + step + int i * step + W),
                           real_of_int (start + step + int i * step) / fps)) [0 ..< j]"
    by (simp add: upt_conv_Cons map_Suc_upt [symmetric] algebra_simps del: upt_Suc)
  show ?case
    apply (subst window_loop.simps)
    apply (simp only: first fps if_True if_False)
    apply (subst Suc.IH [OF fit' stop'])
    apply (simp only: shift)
    apply (simp add: algebra_simps)
    done
qed

lemma window_loop_returns_aux:
  assumes "window_loop c fps W step start acc = Some y"
  shows "step \<le> 0 \<and> fps \<noteq> 0 \<longrightarrow> \<not> start + W \<le> int (length c)"
proof (rule window_loop.raw_induct
    [where P = "\<lambda>c fps W step start acc y.
                  step \<le> 0 \<and> fps \<noteq> 0 \<longrightarrow> \<not> start + W \<le> int (length c)",
     OF _ assms])
  fix f :: "real list \<Rightarrow> real \<Rightarrow> int \<Rightarrow> int \<Rightarrow> int \<Rightarrow> window list
              \<Rightarrow> (py_error + int \<times> window list) option"
  fix c fps W step start acc y
  assume IH: "\<And>c fps W step start acc y. f c fps W step start acc = Some y \<Longrightarrow>
                step \<le> 0 \<and> fps \<noteq> 0 \<longrightarrow> \<not> start + W \<le> int (length c)"
  assume eq: "(if start + W \<le> int (length c)
      then (if fps = 0 then Some (Inl ZeroDivisionError)
            else f c fps W step (start + step)
                   (acc @ [(py_slice c start (start + W), real_of_int start / fps)]))
      else Some (Inr (start, acc))) = Some y"
  show "step \<le> 0 \<and> fps \<noteq> 0 \<longrightarrow> \<not> start + W \<le> int (length c)"
  proof (intro impI notI, elim conjE)
    assume st: "step \<le> 0" and nz: "fps \<noteq> 0" and fit: "start + W \<le> int (length c)"
    have "f c fps W step (start + step)
        (acc @ [(py_slice c start (start + W), real_of_int start / fps)]) = Some y"
      using eq fit nz by simp
    then have "\<not> start + step + W \<le> int (length c)"
      using IH st nz by blast
    then show False using fit st by linarith
  qed
qed

lemma window_loop_returns:
  "window_loop c fps W step start acc = Some y \<Longrightarrow> step \<le> 0 \<Longrightarrow> fps \<noteq> 0 \<Longrightarrow>
   \<not> start + W \<le> int (length c)"
  using window_loop_returns_aux by blast

lemma window_loop_diverges:
  assumes "step \<le> 0" "fps \<noteq> 0" "start + W \<le> int (length c)"
  shows "window_loop c fps W step start acc = None"
proof (cases "window_loop c fps W step start acc")
  case None
  then show ?thesis .
next
  case (Some y)
  then show ?thesis using window_loop_returns [OF Some assms(1,2)] assms(3) by simp
qed

lemma int_div_bounds:
  fixes a b :: int
  assumes "0 < b"
  shows "(a div b) * b \<le> a \<and> a < (a div b + 1) * b"
proof -
  define q where "q = a div b"
  define m where "m = a mod b"
  have eq: "a = q * b + m" by (simp add: q_def m_def)
  have m: "0 \<le> m" "m < b" using assms by (simp_all add: m_def)
  have "(q + 1) * b = q * b + b" by (simp add: algebra_simps)
  then show ?thesis unfolding q_def [symmetric] using eq m by linarith
qed

lemma full_window_count_fit:
  assumes "0 < step"
  shows "\<forall>i<full_window_count n W step. int i * step + W \<le> int n"
proof (intro allI impI)
  fix i assume i: "i < full_window_count n W step"
  then have W: "W \<le> int n" by (auto simp: full_window_count_def split: if_splits)
  then have q: "0 \<le> (int n - W) div step" using assms by (simp add: pos_imp_zdiv_nonneg_iff)
  have "int i \<le> (int n - W) div step" using i W q by (simp add: full_window_count_def)
  then have "int i * step \<le> ((int n - W) div step) * step"
    using assms by (simp add: mult_right_mono)
  also have "\<dots> \<le> int n - W"
    using int_div_bounds [OF assms] by blast
  finally show "int i * step + W \<le> int n" by simp
qed

lemma full_window_count_stop:
  assumes "0 < step"
  shows "int n < int (full_window_count n W step) * step + W"
proof (cases "W \<le> int n")
  case True
  then have q: "0 \<le> (int n - W) div step" using assms by (simp add: pos_imp_zdiv_nonneg_iff)
  have "int n - W < ((int n - W) div step + 1) * step"
    using int_div_bounds [OF assms] by blast
  moreover have "int (full_window_count n W step) = (int n - W) div step + 1"
    using True q by (simp add: full_window_count_def)
  ultimately show ?thesis by simp
next
  case False
  then show ?thesis by (simp add: full_window_count_def)
qed


lemma py_slice_window:
  assumes "0 \<le> s" "0 \<le> W" "s + W \<le> int (length c)"
  shows "py_slice c s (s + W) = take (nat W) (drop (nat s) c)"
proof -
  have le: "nat s \<le> length c" "nat s + nat W \<le> length c" using assms by linarith+
  have "py_index (length c) s = nat s" using assms(1) le by (simp add: py_index_def min_def)
  moreover have "py_index (length c) (s + W) = nat s + nat W"
    using assms le by (simp add: py_index_def min_def nat_add_distrib)
  ultimately show ?thesis by (simp add: py_slice_def Let_def)
qed

lemma py_slice_from_drop: "0 \<le> s \<Longrightarrow> py_slice_from c s = drop (nat s) c"
  by (simp add: py_slice_from_def py_index_def min_def)

lemma step_frames_fps:
  assumes "0 < step_frames_of sr window_sec overlap_sec"
  shows "real_of_int sr / real_of_int HOP_LENGTH \<noteq> 0"
proof
  assume "real_of_int sr / real_of_int HOP_LENGTH = 0"
  then have "step_frames_of sr window_sec overlap_sec = py_int ((window_sec - overlap_sec) * 0)"
    by (simp only: step_frames_of_def)
  then have "step_frames_of sr window_sec overlap_sec = 0"
    by (simp add: py_int_def)
  then show False using assms by simp
qed

lemma create_sliding_windows_diverges:
  assumes "step_frames_of sr window_sec overlap_sec \<le> 0" and "sr \<noteq> 0"
    and "window_frames_of sr window_sec \<le> int (length pitch_contour)"
  shows "create_sliding_windows pitch_contour sr window_sec overlap_sec = None"
proof -
  have "real_of_int sr / real_of_int HOP_LENGTH \<noteq> 0"
    using assms(2) by (simp add: HOP_LENGTH_def)
  then have "window_loop pitch_contour (real_of_int sr / real_of_int HOP_LENGTH)
      (window_frames_of sr window_sec) (step_frames_of sr window_sec overlap_sec) 0 [] = None"
    using assms(1,3) by (intro window_loop_diverges) simp_all
  then show ?thesis by (simp add: create_sliding_windows_def)
qed

lemma default_frames:
  "window_frames_of 22050 WINDOW_DURATION_SEC = 645 \<and>
   step_frames_of 22050 WINDOW_DURATION_SEC WINDOW_OVERLAP_SEC = 430"
  by (simp add: window_frames_of_def step_frames_of_def WINDOW_DURATION_SEC_def
      WINDOW_OVERLAP_SEC_def HOP_LENGTH_def py_int_def)

text \<open>
  The layout of the windows, for a positive step and a window length that is not
  negative, both in frames.
\<close>

lemma sliding_windows_frames:
  fixes pitch_contour :: "real list" and sr :: int and window_sec overlap_sec :: real
  defines "fps \<equiv> real_of_int sr / real_of_int HOP_LENGTH"
    and "W \<equiv> window_frames_of sr window_sec"
    and "step \<equiv> step_frames_of sr window_sec overlap_sec"
  defines "k \<equiv> full_window_count (length pitch_contour) W step"
  assumes step: "0 < step" and W: "0 \<le> W"
  shows "create_sliding_windows pitch_contour sr window_sec overlap_sec =
           Some (Inr
             (map (\<lambda>i. (take (nat W) (drop (nat (int i * step)) pitch_contour),
                         real_of_int (int i * step) / fps)) [0 ..< k]
              @ (if MIN_VALID_FRAMES \<le> int (length pitch_contour) - int k * step
                 then [(drop (nat (int k * step)) pitch_contour,
                        real_of_int (int k * step) / fps)]
                 else [])))
         \<and> (\<forall>i<k. int i * step + W \<le> int (length pitch_contour))
         \<and> int (length pitch_contour) < int k * step + W"
proof -
  define full where "full = map (\<lambda>i. (take (nat W) (drop (nat (int i * step)) pitch_contour),
                         real_of_int (int i * step) / fps)) [0 ..< k]"
  define r where "r = int k * step"
  have fps: "fps \<noteq> 0"
    using step unfolding fps_def step_def by (rule step_frames_fps)
  have fit: "\<forall>i<k. int i * step + W \<le> int (length pitch_contour)"
    unfolding k_def by (rule full_window_count_fit [OF step])
  have stop: "int (length pitch_contour) < int k * step + W"
    unfolding k_def by (rule full_window_count_stop [OF step])
  have "window_loop pitch_contour fps W step 0 [] =
         Some (Inr (0 + int k * step,
           [] @ map (\<lambda>i. (py_slice pitch_contour (0 + int i * step) (0 + int i * step + W),
                           real_of_int (0 + int i * step) / fps)) [0 ..< k]))"
    by (rule window_loop_unroll [OF step fps]) (use fit stop in simp_all)
  moreover have "map (\<lambda>i. (py_slice pitch_contour (0 + int i * step) (0 + int i * step + W),
                           real_of_int (0 + int i * step) / fps)) [0 ..< k] = full"
    unfolding full_def
  proof (rule map_cong [OF refl])
    fix i assume "i \<in> set [0 ..< k]"
    then have "int i * step + W \<le> int (length pitch_contour)" using fit by simp
    moreover have "0 \<le> int i * step" using step by simp
    ultimately have "py_slice pitch_contour (int i * step) (int i * step + W) =
        take (nat W) (drop (nat (int i * step)) pitch_contour)"
      using W by (simp add: py_slice_window)
    then show "(py_slice pitch_contour (0 + int i * step) (0 + int i * step + W),
                  real_of_int (0 + int i * step) / fps) =
               (take (nat W) (drop (nat (int i * step)) pitch_contour),
                  real_of_int (int i * step) / fps)" by simp
  qed
  ultimately have loop: "window_loop pitch_contour fps W step 0 [] = Some (Inr (r, full))"
    by (simp add: r_def)
  have r0: "0 \<le> r" using step by (simp add: r_def)
  have tail: "py_slice_from pitch_contour r = drop (nat r) pitch_contour"
    using r0 by (rule py_slice_from_drop)
  have ltail: "int (length (drop (nat r) pitch_contour)) = max 0 (int (length pitch_contour) - r)"
    using r0 by (simp add: max_def)
  have "create_sliding_windows pitch_contour sr window_sec overlap_sec =
          Some (Inr (full @ (if MIN_VALID_FRAMES \<le> int (length pitch_contour) - r
                 then [(drop (nat r) pitch_contour, real_of_int r / fps)] else [])))"
    unfolding create_sliding_windows_def Let_def fps_def [symmetric] W_def [symmetric]
      step_def [symmetric] loop
    using fps r0 by (simp add: tail ltail MIN_VALID_FRAMES_def)
  then show ?thesis
    using fit stop by (simp add: full_def r_def)
qed

text \<open>
  C5 (as amended). Let \<open>fps\<close> be the frame rate \<open>sr / HOP_LENGTH\<close>, and let the window be
  at least 0 frames long and exceed the overlap by at least one frame:
  \<open>0 \<le> window_sec * fps\<close> and \<open>1 \<le> (window_sec - overlap_sec) * fps\<close>. Then the window
  length \<open>W\<close> and the step, in frames, are the integer parts of \<open>window_sec * fps\<close> and of
  \<open>(window_sec - overlap_sec) * fps\<close>, the step is at least 1, and the function returns.
  The full windows start exactly at the offsets \<open>0, step, 2 * step, \<dots>\<close> for which
  \<open>start + W\<close> does not exceed the length of the contour, and each has \<open>W\<close> frames. After
  them comes one final window, from the next offset \<open>k * step\<close> to the end of the contour
  (so it may overlap the last full window), if and only if the number of frames from that
  offset to the end is at least \<open>MIN_VALID_FRAMES\<close>. No window extends past the end of
  the contour.
\<close>

theorem sliding_windows_layout:
  fixes pitch_contour :: "real list" and sr :: int and window_sec overlap_sec :: real
  defines "fps \<equiv> real_of_int sr / real_of_int HOP_LENGTH"
    and "W \<equiv> window_frames_of sr window_sec"
    and "step \<equiv> step_frames_of sr window_sec overlap_sec"
  defines "k \<equiv> full_window_count (length pitch_contour) W step"
  assumes gap: "1 \<le> (window_sec - overlap_sec) * fps" and long: "0 \<le> window_sec * fps"
  shows "W = \<lfloor>window_sec * fps\<rfloor> \<and> step = \<lfloor>(window_sec - overlap_sec) * fps\<rfloor> \<and> 1 \<le> step
         \<and> create_sliding_windows pitch_contour sr window_sec overlap_sec =
           Some (Inr
             (map (\<lambda>i. (take (nat W) (drop (nat (int i * step)) pitch_contour),
                         real_of_int (int i * step) / fps)) [0 ..< k]
              @ (if MIN_VALID_FRAMES \<le> int (length pitch_contour) - int k * step
                 then [(drop (nat (int k * step)) pitch_contour,
                        real_of_int (int k * step) / fps)]
                 else [])))
         \<and> (\<forall>i<k. int i * step + W \<le> int (length pitch_contour))
         \<and> int (length pitch_contour) < int k * step + W"
proof -
  have W: "W = \<lfloor>window_sec * fps\<rfloor>"
    using long by (simp add: W_def window_frames_of_def fps_def py_int_def)
  have step: "step = \<lfloor>(window_sec - overlap_sec) * fps\<rfloor>"
    using gap by (simp add: step_def step_frames_of_def fps_def py_int_def)
  have "1 \<le> \<lfloor>(window_sec - overlap_sec) * fps\<rfloor>" using gap by linarith
  then have step1: "1 \<le> step" by (simp only: step)
  have "0 \<le> \<lfloor>window_sec * fps\<rfloor>" using long by simp
  then have W0: "0 \<le> W" by (simp only: W)
  have spos: "0 < step_frames_of sr window_sec overlap_sec"
    using step1 by (simp add: step_def)
  have wpos: "0 \<le> window_frames_of sr window_sec"
    using W0 by (simp add: W_def)
  have layout: "create_sliding_windows pitch_contour sr window_sec overlap_sec =
           Some (Inr
             (map (\<lambda>i. (take (nat W) (drop (nat (int i * step)) pitch_contour),
                         real_of_int (int i * step) / fps)) [0 ..< k]
              @ (if MIN_VALID_FRAMES \<le> int (length pitch_contour) - int k * step
                 then [(drop (nat (int k * step)) pitch_contour,
                        real_of_int (int k * step) / fps)]
                 else [])))
         \<and> (\<forall>i<k. int i * step + W \<le> int (length pitch_contour))
         \<and> int (length pitch_contour) < int k * step + W"
    unfolding k_def step_def W_def fps_def
    by (rule sliding_windows_frames [OF spos wpos])
  show ?thesis using W step step1 layout by blast
qed

theorem sliding_windows_layout_witness:
  "step_frames_of 512 20 15 = 5 \<and> window_frames_of 512 20 = 20 \<and>
   create_sliding_windows (map real [0 ..< 25]) 512 20 15 =
     Some (Inr [(map real [0 ..< 20], 0), (map real [5 ..< 25], 5), (map real [10 ..< 25], 10)])"
  using sliding_windows_layout [of 20 15 512 "map real [0 ..< 25]"]
  by (simp add: window_frames_of_def step_frames_of_def HOP_LENGTH_def py_int_def
      full_window_count_def MIN_VALID_FRAMES_def upt_rec)

text \<open>
  The claim C5 as stated fails in two ways. With a window of 15 s and an overlap of
  14.99 s at 22050 Hz the step is 0 frames, and the function does not return for a contour
  of 700 frames. With a window of 20 frames and a step of 5 frames on a contour of 20
  frames, no frame follows the full window, and the function still emits a final window,
  the frames 5 to 20.
\<close>

theorem sliding_windows_claim_fails:
  "(1499 / 100 :: real) < 15 \<and>
   step_frames_of 22050 15 (1499 / 100) = 0 \<and>
   create_sliding_windows (replicate 700 0) 22050 15 (1499 / 100) = None \<and>
   (15 :: real) < 20 \<and>
   frames_after_full_windows 20 (window_frames_of 512 20) (step_frames_of 512 20 15) = 0 \<and>
   create_sliding_windows (map real [0 ..< 20]) 512 20 15 =
     Some (Inr [(map real [0 ..< 20], 0), (map real [5 ..< 20], 5)])"
proof -
  have step0: "step_frames_of 22050 15 (1499 / 100) = 0"
    by (simp add: step_frames_of_def HOP_LENGTH_def py_int_def)
  have "window_frames_of 22050 15 = 645"
    by (simp add: window_frames_of_def HOP_LENGTH_def py_int_def)
  then have "create_sliding_windows (replicate 700 0) 22050 15 (1499 / 100) = None"
    using step0 by (intro create_sliding_windows_diverges) simp_all
  moreover have "create_sliding_windows (map real [0 ..< 20]) 512 20 15 =
     Some (Inr [(map real [0 ..< 20], 0), (map real [5 ..< 20], 5)])"
    using sliding_windows_frames [of 512 20 15 "map real [0 ..< 20]"]
    by (simp add: window_frames_of_def step_frames_of_def HOP_LENGTH_def py_int_def
        full_window_count_def MIN_VALID_FRAMES_def upt_rec)
  moreover have "frames_after_full_windows 20 (window_frames_of 512 20)
      (step_frames_of 512 20 15) = 0"
    by (simp add: frames_after_full_windows_def full_window_count_def window_frames_of_def
        step_frames_of_def HOP_LENGTH_def py_int_def)
  ultimately show ?thesis using step0 by simp
qed

subsection \<open>The ranker\<close>

lemma sort_reverse_sorted:
  "sorted_wrt (\<lambda>a b. key b \<le> key a) (sort_reverse key xs)"
proof -
  have "sorted (map (\<lambda>x. - key x) (sort_key (\<lambda>x. - key x) xs))"
    by (rule sorted_sort_key)
  then show ?thesis by (simp add: sort_reverse_def sorted_map)
qed

lemma sort_reverse_stable:
  "filter (\<lambda>x. key x = v) (sort_reverse key xs) = filter (\<lambda>x. key x = v) xs"
  using sort_key_stable [of "\<lambda>x. - key x" "- v" xs] by (simp add: sort_reverse_def)

lemma sort_reverse_mset: "mset (sort_reverse key xs) = mset xs"
  by (simp add: sort_reverse_def)

lemma py_slice_to_all: "py_slice_to xs (int (length xs)) = xs"
  by (simp add: py_slice_to_def py_index_def)

lemma py_slice_to_take: "0 \<le> n \<Longrightarrow> py_slice_to xs n = take (nat n) xs"
  by (simp add: py_slice_to_def py_index_def min_def)

text \<open>
  C3 (as amended). The list that \<open>find_best_matches\<close> returns is sorted by non-increasing
  similarity; for \<open>top_n \<ge> 0\<close> it consists of the first \<open>top_n\<close> entries of the full
  ranking, and of the first 5 when \<open>top_n\<close> is left out; the full ranking holds every
  song of the database once, and songs of equal similarity stand in it in the order of the
  database (the sort is stable; the identifier plays no part).
\<close>

theorem find_best_matches_ranked:
  "sorted_wrt (\<lambda>a b. m_similarity b \<le> m_similarity a) (find_best_matches user_features database top_n)
   \<and> (0 \<le> top_n \<longrightarrow>
        find_best_matches user_features database top_n =
          take (nat top_n) (find_best_matches user_features database (int (length database))))
   \<and> mset (find_best_matches user_features database (int (length database))) =
        mset (map (song_match user_features) database)
   \<and> (\<forall>v. filter (\<lambda>m. m_similarity m = v)
              (find_best_matches user_features database (int (length database))) =
            filter (\<lambda>m. m_similarity m = v) (map (song_match user_features) database))
   \<and> find_best_matches_default user_features database =
        take 5 (find_best_matches user_features database (int (length database)))"
proof -
  define ms where "ms = sort_reverse m_similarity (map (song_match user_features) database)"
  have fbm: "find_best_matches user_features database n = py_slice_to ms n" for n
    by (simp add: find_best_matches_def ms_def Let_def)
  have len: "length ms = length database"
    using sort_reverse_mset [of m_similarity "map (song_match user_features) database"]
    by (metis ms_def length_map size_mset)
  have full: "find_best_matches user_features database (int (length database)) = ms"
    using py_slice_to_all [of ms] by (simp add: fbm len)
  have "sorted_wrt (\<lambda>a b. m_similarity b \<le> m_similarity a) ms"
    unfolding ms_def by (rule sort_reverse_sorted)
  then have 1: "sorted_wrt (\<lambda>a b. m_similarity b \<le> m_similarity a)
      (find_best_matches user_features database top_n)"
    by (simp add: fbm py_slice_to_def sorted_wrt_take)
  have 2: "0 \<le> top_n \<longrightarrow> find_best_matches user_features database top_n =
          take (nat top_n) (find_best_matches user_features database (int (length database)))"
  proof
    assume "0 \<le> top_n"
    then have "find_best_matches user_features database top_n = take (nat top_n) ms"
      by (simp only: fbm py_slice_to_take)
    then show "find_best_matches user_features database top_n =
          take (nat top_n) (find_best_matches user_features database (int (length database)))"
      by (simp only: full)
  qed
  have 3: "mset (find_best_matches user_features database (int (length database))) =
        mset (map (song_match user_features) database)"
    unfolding full ms_def by (rule sort_reverse_mset)
  have 4: "\<forall>v. filter (\<lambda>m. m_similarity m = v)
              (find_best_matches user_features database (int (length database))) =
            filter (\<lambda>m. m_similarity m = v) (map (song_match user_features) database)"
    unfolding full ms_def by (simp add: sort_reverse_stable)
  have 5: "find_best_matches_default user_features database =
        take 5 (find_best_matches user_features database (int (length database)))"
  proof -
    have "find_best_matches_default user_features database = take (nat 5) ms"
      by (simp only: find_best_matches_default_def fbm) (simp add: py_slice_to_take)
    then show ?thesis by (simp only: full) simp
  qed
  show ?thesis using 1 2 3 4 5 by blast
qed

lemma flat_level_matches:
  "song_match rising_query flat_song =
     \<lparr>m_id = ''b'', m_name = ''Flat'', m_title = ''Flat'', m_artist = ''Unknown Artist'',
      m_cover_image = None, m_theme_color = None, m_path = [], m_similarity = 70,
      m_tempo = 120, m_pitch_count = 3\<rparr>"
  "song_match rising_query level_song =
     \<lparr>m_id = ''a'', m_name = ''Level'', m_title = ''Level'', m_artist = ''Unknown Artist'',
      m_cover_image = None, m_theme_color = None, m_path = [], m_similarity = 70,
      m_tempo = 120, m_pitch_count = 2\<rparr>"
  by (simp_all add: song_match_def similarity_eval flat_song_def level_song_def rising_query_def
      py_round_digits_def py_round_def)

lemma flat_level_ranking:
  "find_best_matches rising_query [flat_song, level_song] 5 =
     [song_match rising_query flat_song, song_match rising_query level_song]"
  by (simp add: find_best_matches_def sort_reverse_def py_slice_to_def py_index_def
      flat_level_matches)

text \<open>
  The claim C3 as stated fails: two songs of equal similarity are returned in the order
  of the database, here the identifier \<open>b\<close> before \<open>a\<close>.
\<close>

theorem ties_keep_database_order:
  "map m_id (find_best_matches rising_query [flat_song, level_song] 5) = [''b'', ''a''] \<and>
   map m_similarity (find_best_matches rising_query [flat_song, level_song] 5) = [70, 70] \<and>
   \<not> ranked_by_similarity_then_id (find_best_matches rising_query [flat_song, level_song] 5)"
  by (simp add: flat_level_ranking flat_level_matches ranked_by_similarity_then_id_def)

theorem find_best_matches_ranked_witness:
  "find_best_matches rising_query [flat_song, level_song] 1 =
     take 1 (find_best_matches rising_query [flat_song, level_song] 2) \<and>
   find_best_matches_default rising_query [flat_song, level_song] =
     [song_match rising_query flat_song, song_match rising_query level_song]"
  using find_best_matches_ranked [of rising_query "[flat_song, level_song]" 1]
    find_best_matches_ranked [of rising_query "[flat_song, level_song]" 5]
  by (simp add: flat_level_ranking find_best_matches_default_def)

subsection \<open>Empty inputs\<close>

text \<open>
  C4 (as amended). When the interval sequence of the song or of the query is empty or
  absent, \<open>calculate_similarity\<close> raises no error: the body of its \<open>try\<close> block returns
  the score 0. The two \<open>compute_dtw_distance\<close> functions make no check of their own on an
  empty sequence: what \<open>fastdtw\<close> returns for it they return (the distance, normalised by
  the length of the path plus one in \<open>dsp_utils\<close>), and what it raises they raise.
\<close>

theorem empty_sequence_not_rejected:
  "(dict_get (d_relative_pitches song_features) [] = [] \<or>
    dict_get (d_relative_pitches user_features) [] = [] \<longrightarrow>
      calculate_similarity_body song_features user_features = Inr 0 \<and>
      calculate_similarity song_features user_features = 0) \<and>
   (fastdtw [] seq2 = Inr (distance, path) \<longrightarrow>
      utils_compute_dtw_distance fastdtw [] seq2 =
        Inr (distance / (real (length path) + 1), length path) \<and>
      compute_dtw_distance fastdtw [] seq2 = Inr distance) \<and>
   (fastdtw [] seq2 = Inl e \<longrightarrow>
      utils_compute_dtw_distance fastdtw [] seq2 = Inl e \<and>
      compute_dtw_distance fastdtw [] seq2 = Inl e)"
  by (auto simp: calculate_similarity_def calculate_similarity_body_def Let_def
      utils_compute_dtw_distance_def compute_dtw_distance_def)

theorem empty_sequence_not_rejected_witness:
  "dict_get (d_relative_pitches silent_query) [] = [] \<and>
   calculate_similarity_body flat_song silent_query = Inr 0 \<and>
   calculate_similarity flat_song silent_query = 0 \<and>
   silent_fastdtw [] [] = Inr (0, []) \<and>
   utils_compute_dtw_distance silent_fastdtw [] [] = Inr (0, 0) \<and>
   compute_dtw_distance silent_fastdtw [] [] = Inr 0 \<and>
   raising_fastdtw [] [1, 2] = Inl IndexError \<and>
   utils_compute_dtw_distance raising_fastdtw [] [1, 2] = Inl IndexError \<and>
   compute_dtw_distance raising_fastdtw [] [1, 2] = Inl IndexError"
  using empty_sequence_not_rejected [of flat_song silent_query silent_fastdtw "[]" 0 "[]"]
    empty_sequence_not_rejected [of flat_song silent_query raising_fastdtw "[1, 2]" 0 "[]"
      IndexError]
  by (simp add: silent_query_def dict_get_def silent_fastdtw_def raising_fastdtw_def)

text \<open>
  The claim C4 as stated fails: for a query with an empty interval sequence the result is
  the valid score 0, which the ranker then reports for the song.
\<close>

theorem empty_query_scores_zero:
  "calculate_similarity_body flat_song silent_query = Inr 0 \<and>
   calculate_similarity flat_song silent_query = 0 \<and>
   m_similarity (song_match silent_query flat_song) = 0"
  by (simp add: song_match_def calculate_similarity_def calculate_similarity_body_def Let_def
      silent_query_def flat_song_def dict_get_def py_round_digits_def py_round_def)

subsection \<open>Empty corpus\<close>

text \<open>
  C8. With no song in the database, \<open>find_best_matches\<close> returns the empty list, for every
  query and every \<open>top_n\<close>, and \<open>identify_melody\<close> returns \<open>None\<close>, its empty result,
  before it looks at the hum: no error is raised.
\<close>

theorem empty_corpus_no_error:
  "find_best_matches user_features [] top_n = [] \<and>
   find_best_matches_default user_features [] = [] \<and>
   identify_melody fastdtw hum [] = Inr None"
  by (simp add: find_best_matches_def find_best_matches_default_def sort_reverse_def
      py_slice_to_def identify_melody_def)

subsection \<open>The interval representation\<close>

lemma np_diff_length: "length (np_diff xs) = length xs - 1"
  by (induction xs rule: np_diff.induct) auto

lemma np_diff_nth: "i < length xs - 1 \<Longrightarrow> np_diff xs ! i = xs ! (i + 1) - xs ! i"
proof (induction xs arbitrary: i rule: np_diff.induct)
  case (1 a b rest)
  then show ?case by (cases i) auto
qed auto

text \<open>
  C2 (as amended). \<open>normalize_to_intervals\<close> takes the first differences of the pitch
  sequence, rounds each to the nearest integer semitone and clips it to \<open>[-7, 7]\<close>: the
  result has one element less than the input, and every element is an integer between
  \<open>-7\<close> and \<open>7\<close>. The mean of the intervals is not subtracted.
\<close>

theorem normalize_to_intervals_clipped:
  "length (normalize_to_intervals pitch_midi) = length pitch_midi - 1 \<and>
   (\<forall>i < length pitch_midi - 1.
      normalize_to_intervals pitch_midi ! i =
        min (max (real_of_int (py_round (pitch_midi ! (i + 1) - pitch_midi ! i))) (- 7)) 7) \<and>
   (\<forall>d \<in> set (normalize_to_intervals pitch_midi). d \<in> \<int> \<and> - 7 \<le> d \<and> d \<le> 7)"
proof -
  have eq: "normalize_to_intervals pitch_midi =
      map (\<lambda>x. min (max (real_of_int (py_round x)) (- 7)) 7) (np_diff pitch_midi)"
  proof (cases "length pitch_midi < 2")
    case True
    then have "length (np_diff pitch_midi) = 0" by (simp add: np_diff_length)
    then show ?thesis using True by (simp add: normalize_to_intervals_def)
  next
    case False
    then show ?thesis by (simp add: normalize_to_intervals_def np_clip_def Let_def comp_def)
  qed
  have 1: "length (normalize_to_intervals pitch_midi) = length pitch_midi - 1"
    by (simp add: eq np_diff_length)
  have 2: "\<forall>i < length pitch_midi - 1.
      normalize_to_intervals pitch_midi ! i =
        min (max (real_of_int (py_round (pitch_midi ! (i + 1) - pitch_midi ! i))) (- 7)) 7"
    by (simp add: eq np_diff_length np_diff_nth)
  have 3: "\<forall>d \<in> set (normalize_to_intervals pitch_midi). d \<in> \<int> \<and> - 7 \<le> d \<and> d \<le> 7"
    by (auto simp: eq min_def max_def)
  show ?thesis using 1 2 3 by blast
qed

theorem normalize_to_intervals_clipped_witness:
  "normalize_to_intervals [60, 62.5, 64, 80, 64.4] = [2, 2, 7, - 7]"
  using normalize_to_intervals_clipped [of "[60, 62.5, 64, 80, 64.4]"]
  by (simp add: normalize_to_intervals_def np_clip_def py_round_def Let_def)

text \<open>
  The claim C2 as stated fails: for the example of the docstring the function returns
  the intervals \<open>[2, 2, 1, -1]\<close>, whose mean is 1, and not the mean-subtracted
  \<open>[1, 1, 0, -2]\<close>.
\<close>

theorem intervals_not_mean_subtracted:
  "normalize_to_intervals [60, 62, 64, 65, 64] = [2, 2, 1, - 1] \<and>
   mean_subtracted_intervals [60, 62, 64, 65, 64] = [1, 1, 0, - 2]"
  by (simp add: normalize_to_intervals_def mean_subtracted_intervals_def np_clip_def
      py_round_def np_mean_def Let_def)

subsection \<open>Mean-centred contours\<close>

lemma sum_list_shift:
  fixes xs :: "real list"
  shows "sum_list (map (\<lambda>x. x - c) xs) = sum_list xs - real (length xs) * c"
  by (induction xs) (auto simp: algebra_simps)

lemma np_mean_centred: "xs \<noteq> [] \<Longrightarrow> np_mean (centred xs) = 0"
  by (simp add: centred_def np_mean_def sum_list_shift)

lemma voiced_midi: "voiced (map (map_option hz_to_midi) f0) = map hz_to_midi (voiced f0)"
  by (induction f0) (auto simp: voiced_def)

lemma medfilt_length: "length (medfilt volume kernel_size) = length volume"
  by (simp add: medfilt_def Let_def)

text \<open>
  C6. For a pitch track with positive voiced frequencies: when the audio is not too quiet
  and at least 15 voiced frames remain, \<open>extract_pitch\<close> returns the contour obtained by
  median smoothing with kernel 5, conversion to semitones and clipping to the 5th and
  95th percentile, with its mean subtracted as the last step, and the mean of the result
  is 0; when at least \<open>MIN_VALID_FRAMES\<close> voiced frames remain,
  \<open>normalize_pitch_contour\<close> returns the semitone values of the voiced frames with
  their mean subtracted, and the mean of the result is 0. Over the reals the mean is
  exactly 0; the rounding error of the floating-point mean is outside the model.
\<close>

theorem normalized_contour_mean_zero:
  "(3 / 1000 \<le> rms_mean \<and> 15 \<le> length (voiced f0) \<and> (\<forall>f \<in> set (voiced f0). 0 < f) \<longrightarrow>
      (let midi = map hz_to_midi (medfilt (voiced f0) 5);
           clipped = np_clip midi (np_percentile midi 5) (np_percentile midi 95)
       in extract_pitch rms_mean f0 = Some (centred clipped) \<and>
          length (centred clipped) = length (voiced f0) \<and>
          np_mean (centred clipped) = 0)) \<and>
   (MIN_VALID_FRAMES \<le> int (length (voiced f0)) \<and> (\<forall>f \<in> set (voiced f0). 0 < f) \<longrightarrow>
      (let valid_notes = map hz_to_midi (voiced f0)
       in normalize_pitch_contour f0 = Inr (centred valid_notes) \<and>
          length (centred valid_notes) = length (voiced f0) \<and>
          np_mean (centred valid_notes) = 0))"
proof (intro conjI impI)
  assume a: "3 / 1000 \<le> rms_mean \<and> 15 \<le> length (voiced f0) \<and> (\<forall>f \<in> set (voiced f0). 0 < f)"
  define midi where "midi = map hz_to_midi (medfilt (voiced f0) 5)"
  define clipped where "clipped = np_clip midi (np_percentile midi 5) (np_percentile midi 95)"
  have kernel: "min 5 (if length (voiced f0) mod 2 = 1 then int (length (voiced f0))
            else int (length (voiced f0)) - 1) = 5"
    using a by (simp add: min_def)
  have len: "length clipped = length (voiced f0)"
    by (simp add: clipped_def np_clip_def midi_def medfilt_length)
  then have ne: "clipped \<noteq> []" using a by auto
  have "extract_pitch rms_mean f0 = Some (centred clipped)"
    using a unfolding extract_pitch_def Let_def kernel
    by (simp add: centred_def clipped_def midi_def)
  then show "let midi = map hz_to_midi (medfilt (voiced f0) 5);
           clipped = np_clip midi (np_percentile midi 5) (np_percentile midi 95)
       in extract_pitch rms_mean f0 = Some (centred clipped) \<and>
          length (centred clipped) = length (voiced f0) \<and>
          np_mean (centred clipped) = 0"
    unfolding Let_def midi_def [symmetric] clipped_def [symmetric]
    using len np_mean_centred [OF ne] by (simp add: centred_def)
next
  assume a: "MIN_VALID_FRAMES \<le> int (length (voiced f0)) \<and> (\<forall>f \<in> set (voiced f0). 0 < f)"
  define valid_notes where "valid_notes = map hz_to_midi (voiced f0)"
  have ne: "valid_notes \<noteq> []" using a by (auto simp: valid_notes_def MIN_VALID_FRAMES_def)
  have "normalize_pitch_contour f0 = Inr (centred valid_notes)"
    using a by (simp add: normalize_pitch_contour_def Let_def voiced_midi valid_notes_def centred_def)
  then show "let valid_notes = map hz_to_midi (voiced f0)
       in normalize_pitch_contour f0 = Inr (centred valid_notes) \<and>
          length (centred valid_notes) = length (voiced f0) \<and>
          np_mean (centred valid_notes) = 0"
    unfolding Let_def valid_notes_def [symmetric]
    using np_mean_centred [OF ne] by (simp add: centred_def valid_notes_def)
qed

lemma hz_to_midi_440: "hz_to_midi 440 = 69"
  by (simp add: hz_to_midi_def)

lemma hz_to_midi_880: "hz_to_midi 880 = 81"
proof -
  have "log 2 880 = log 2 (2 * 440)" by simp
  also have "\<dots> = log 2 2 + log 2 440" by (subst log_mult) simp_all
  finally show ?thesis by (simp add: hz_to_midi_def)
qed

lemma normalize_pitch_contour_example:
  "normalize_pitch_contour
     [Some 440, Some 440, Some 440, None, Some 440, Some 440, Some 880, Some 880, None,
      Some 880, Some 880, Some 880] =
   Inr [- 6, - 6, - 6, - 6, - 6, 6, 6, 6, 6, 6]"
  by (simp add: normalize_pitch_contour_def voiced_def MIN_VALID_FRAMES_def Let_def np_mean_def
      hz_to_midi_440 hz_to_midi_880)


theorem normalized_contour_mean_zero_witness:
  "(\<exists>midi. extract_pitch (1 / 100) (replicate 15 (Some 440)) = Some midi \<and>
           length midi = 15 \<and> np_mean midi = 0) \<and>
   normalize_pitch_contour
     [Some 440, Some 440, Some 440, None, Some 440, Some 440, Some 880, Some 880, None,
      Some 880, Some 880, Some 880] =
   Inr [- 6, - 6, - 6, - 6, - 6, 6, 6, 6, 6, 6] \<and>
   np_mean [- 6, - 6, - 6, - 6, - 6, 6, 6, 6, 6, 6] = 0"
proof -
  have "\<exists>midi. extract_pitch (1 / 100) (replicate 15 (Some 440)) = Some midi \<and>
           length midi = 15 \<and> np_mean midi = 0"
    using normalized_contour_mean_zero [of "1 / 100" "replicate 15 (Some 440)"]
    by (simp add: voiced_def Let_def)
  then show ?thesis
    by (simp add: normalize_pitch_contour_example) (simp add: np_mean_def)
qed

end
